theory Spec2Isabelle
  imports Main "HOL-Library.Multiset"
begin

section \<open>JavaScript values and the library functions the components call\<close>

text \<open>
  The components keep configurations in variables typed \<open>any\<close> or reached through unchecked
  casts (\<open>state.config\<close>, the result of \<open>JSON.parse\<close>, \<open>config as TrelloConfig\<close>), so a
  configuration is modelled as a JavaScript value, not as a closed sum.
\<close>

datatype jsval =
    JUndefined
  | JNull
  | JBool bool
  | JNum int
  | JStr string
  | JArr "jsval list"
  | JObj "(string \<times> jsval) list"

text \<open>Truthiness, as \<open>if (v)\<close>, \<open>a && b\<close> and \<open>!v\<close> test it.\<close>

fun truthy :: "jsval \<Rightarrow> bool" where
  "truthy JUndefined = False"
| "truthy JNull = False"
| "truthy (JBool b) = b"
| "truthy (JNum n) = (n \<noteq> 0)"
| "truthy (JStr s) = (s \<noteq> [])"
| "truthy (JArr xs) = True"
| "truthy (JObj fs) = True"

text \<open>Property read \<open>v.name\<close> on an object; a missing property is \<open>undefined\<close>.\<close>

fun getField :: "jsval \<Rightarrow> string \<Rightarrow> jsval" where
  "getField (JObj fs) name = (case map_of fs name of Some v \<Rightarrow> v | None \<Rightarrow> JUndefined)"
| "getField v name = JUndefined"

text \<open>
  The functions of the JavaScript library and of the host that the source calls, taken as
  parameters: \<open>Date_parse s\<close> is \<open>new Date(s).getTime()\<close> with \<open>None\<close> for \<open>NaN\<close> (an
  invalid date); \<open>JSON_parse\<close> returns \<open>None\<close> where \<open>JSON.parse\<close> throws;
  \<open>toString\<close> is the string a template literal puts for a number, an array or an object;
  \<open>typeErrorMessage v name\<close> is the message of the \<open>TypeError\<close> that reading property
  \<open>name\<close> of \<open>v\<close> (\<open>null\<close> or \<open>undefined\<close>) throws; \<open>clock n\<close> is
  what the \<open>n\<close>-th call of \<open>addLog\<close> reads from the host: the fresh id
  (\<open>Date.now().toString() + Math.random()...\<close>) and \<open>new Date().toLocaleTimeString()\<close>.
\<close>

record lib =
  Date_parse :: "string \<Rightarrow> int option"
  JSON_parse :: "string \<Rightarrow> jsval option"
  JSON_stringify :: "jsval \<Rightarrow> string"
  toUpperCase :: "string \<Rightarrow> string"
  toString :: "jsval \<Rightarrow> string"
  typeErrorMessage :: "jsval \<Rightarrow> string \<Rightarrow> string"
  clock :: "nat \<Rightarrow> string \<times> string"

section \<open>The activity log\<close>

datatype LogType = Info | Success | Warning | Error | Voice | Transcribed | Task | DueDate

record LogEntry =
  id_str :: string
  timestamp :: string
  type :: LogType
  message :: string
  details :: "(string \<times> jsval) list option"

text \<open>
  The ordering key of an entry: \<open>new Date(`1970-01-01 ${a.timestamp}`).getTime()\<close>.
\<close>

definition timeKey :: "lib \<Rightarrow> LogEntry \<Rightarrow> int option" where
  "timeKey env a = Date_parse env (''1970-01-01 '' @ timestamp a)"

text \<open>
  The comparator \<open>(a, b) => timeB - timeA\<close>. The difference is \<open>NaN\<close> when either date is
  invalid, and \<open>Array.prototype.sort\<close> reads a \<open>NaN\<close> result as \<open>+0\<close>.
\<close>

definition compareLogs :: "lib \<Rightarrow> LogEntry \<Rightarrow> LogEntry \<Rightarrow> int" where
  "compareLogs env a b =
     (case (timeKey env a, timeKey env b) of
        (Some timeA, Some timeB) \<Rightarrow> timeB - timeA
      | _ \<Rightarrow> 0)"

text \<open>
  \<open>Array.prototype.sort(comparefn)\<close>, a function of the host. ECMAScript fixes its result
  where the comparator is a consistent order: the elements sorted, equal ones in their former
  order. That is the case when every date is valid, and when none is (every comparison is then
  \<open>+0\<close> and the array stays as it is). Where some dates are valid and some are not, the
  standard leaves the order to the implementation. The model is insertion from the right, an
  element going before the first one it does not compare greater than: it is what the standard
  prescribes in the two consistent cases and one admissible result otherwise, and nothing is
  stated below about the mixed case beyond which entries the log holds.
\<close>

fun sort_insert :: "('a \<Rightarrow> 'a \<Rightarrow> int) \<Rightarrow> 'a \<Rightarrow> 'a list \<Rightarrow> 'a list" where
  "sort_insert c x [] = [x]"
| "sort_insert c x (y # ys) = (if c x y \<le> 0 then x # y # ys else y # sort_insert c x ys)"

fun array_sort :: "('a \<Rightarrow> 'a \<Rightarrow> int) \<Rightarrow> 'a list \<Rightarrow> 'a list" where
  "array_sort c [] = []"
| "array_sort c (x # xs) = sort_insert c x (array_sort c xs)"

text \<open>
  The updater that \<open>addLog\<close> hands to \<open>setLogs\<close>:
  \<open>[newLog, ...prev].slice(0, 50)\<close>, then the sort.
\<close>

definition updateLogs :: "lib \<Rightarrow> LogEntry \<Rightarrow> LogEntry list \<Rightarrow> LogEntry list" where
  "updateLogs env newLog prev = array_sort (compareLogs env) (take 50 (newLog # prev))"

section \<open>The dashboard and the browser state it works on\<close>

datatype RecordingStatus = Idle | Recording | Processing

text \<open>
  The React state and refs of \<open>UnifiedDashboard\<close>, followed by the parts of the browser the
  component reads and writes: \<open>localStorage\<close>, the cookie jar, the interval timers that are
  alive, the console, the calls of \<open>navigate\<close>, the calls of
  \<open>audioRecorder.current.startRecording\<close>, and how many times the clock has been read.
\<close>

record state =
  selectedTool :: "string option"
  recordingStatus :: RecordingStatus
  logs :: "LogEntry list"
  recordingTime :: nat
  showConfigForm :: bool
  isConfigured :: bool
  platformConfig :: jsval
  showSwitchConfirm :: bool
  latestResponse :: jsval
  selectedBoardId :: "string option"
  recordingInterval :: "nat option"
  localStorage :: "string \<rightharpoonup> string"
  cookies :: "string \<rightharpoonup> string"
  liveIntervals :: "nat list"
  nextIntervalId :: nat
  console :: "string list"
  navigations :: "string list"
  deviceAcquisitions :: nat
  clockReads :: nat

text \<open>The component as mounted (the \<open>useState\<close> and \<open>useRef\<close> initial values) in a given browser.\<close>

definition initial_state :: "(string \<rightharpoonup> string) \<Rightarrow> (string \<rightharpoonup> string) \<Rightarrow> state" where
  "initial_state ls ck =
     \<lparr> selectedTool = None, recordingStatus = Idle, logs = [], recordingTime = 0,
       showConfigForm = False, isConfigured = False, platformConfig = JNull,
       showSwitchConfirm = False, latestResponse = JStr ''How can I help you today?'',
       selectedBoardId = None, recordingInterval = None,
       localStorage = ls, cookies = ck, liveIntervals = [], nextIntervalId = 0,
       console = [], navigations = [], deviceAcquisitions = 0, clockReads = 0 \<rparr>"

text \<open>\<open>addLog(type, message, options)\<close>; \<open>det\<close> is \<open>options?.details\<close>.\<close>

definition addLog ::
  "lib \<Rightarrow> LogType \<Rightarrow> string \<Rightarrow> (string \<times> jsval) list option \<Rightarrow> state \<Rightarrow> state" where
  "addLog env ty msg det s =
     (let newLog = \<lparr> id_str = fst (clock env (clockReads s)),
                      timestamp = snd (clock env (clockReads s)),
                      type = ty, message = msg, details = det \<rparr>
      in s\<lparr> logs := updateLogs env newLog (logs s), clockReads := clockReads s + 1 \<rparr>)"

text \<open>The entry (\<open>newLog\<close>) that a call of \<open>addLog\<close> in state \<open>s\<close> builds.\<close>

definition newLog ::
  "lib \<Rightarrow> LogType \<Rightarrow> string \<Rightarrow> (string \<times> jsval) list option \<Rightarrow> state \<Rightarrow> LogEntry" where
  "newLog env ty msg det s =
     \<lparr> id_str = fst (clock env (clockReads s)), timestamp = snd (clock env (clockReads s)),
       type = ty, message = msg, details = det \<rparr>"

text \<open>A sequence of \<open>addLog\<close> calls, in order.\<close>

fun addLogs ::
  "lib \<Rightarrow> (LogType \<times> string \<times> (string \<times> jsval) list option) list \<Rightarrow> state \<Rightarrow> state" where
  "addLogs env [] s = s"
| "addLogs env ((ty, msg, det) # cs) s = addLogs env cs (addLog env ty msg det s)"

text \<open>
  Newest first by the ordering key: of any two entries, the earlier one in the list has a key,
  and it is at least the key of the later one.
\<close>

definition newer_or_same :: "lib \<Rightarrow> LogEntry \<Rightarrow> LogEntry \<Rightarrow> bool" where
  "newer_or_same env a b =
     (case (timeKey env a, timeKey env b) of
        (Some ka, Some kb) \<Rightarrow> kb \<le> ka
      | _ \<Rightarrow> False)"

definition newest_first :: "lib \<Rightarrow> LogEntry list \<Rightarrow> bool" where
  "newest_first env xs = sorted_wrt (newer_or_same env) xs"

text \<open>
  A sample host for evaluating the definitions. A time string parses to its length; the JSON
  texts it knows are \<open>{}\<close> and one Linear record, and every other text (the empty one
  included) makes \<open>JSON.parse\<close> throw.
\<close>

definition quoted :: "string \<Rightarrow> string" where
  "quoted s = CHR 0x22 # s @ [CHR 0x22]"

definition sample_linear_config :: jsval where
  "sample_linear_config = JObj [(''apiKey'', JStr ''k1''), (''workspaceId'', JStr ''w1'')]"

definition sample_linear_record :: string where
  "sample_linear_record =
     ''{'' @ quoted ''apiKey'' @ '':'' @ quoted ''k1'' @ '','' @ quoted ''workspaceId'' @ '':''
       @ quoted ''w1'' @ ''}''"

definition sample_env :: lib where
  "sample_env =
     \<lparr> Date_parse = (\<lambda>s. Some (int (length s))),
       JSON_parse = (\<lambda>s. if s = ''{}'' then Some (JObj [])
                         else if s = sample_linear_record then Some sample_linear_config
                         else None),
       JSON_stringify = (\<lambda>v. if v = sample_linear_config then sample_linear_record else ''{}''),
       toUpperCase = (\<lambda>s. s),
       toString = (\<lambda>v. []),
       typeErrorMessage = (\<lambda>v name. ''Cannot read properties''),
       clock = (\<lambda>n. (''id'', replicate n (CHR ''1''))) \<rparr>"

text \<open>
  The same host in a locale whose time strings \<open>Date\<close> cannot read (Danish writes
  \<open>10.50.12\<close>): every date built from a timestamp is invalid.
\<close>

definition sample_env_unparsed :: lib where
  "sample_env_unparsed = sample_env\<lparr> Date_parse := (\<lambda>s. None) \<rparr>"

section \<open>Platform detection\<close>

text \<open>
  \<open>location.state as { platform?: string; token?: string; config?: any }\<close>; the router hands
  \<open>null\<close> (here \<open>None\<close>) when the navigation carried no state.
\<close>

record NavState =
  nav_platform :: "string option"
  nav_token :: "string option"
  nav_config :: jsval

text \<open>\<open>p.charAt(0).toUpperCase() + p.slice(1)\<close>\<close>

definition capitalize :: "lib \<Rightarrow> string \<Rightarrow> string" where
  "capitalize env p = toUpperCase env (take 1 p) @ drop 1 p"

text \<open>\<open>Cookies.get(name)\<close>: the cookie's string, or \<open>undefined\<close>.\<close>

definition Cookies_get :: "state \<Rightarrow> string \<Rightarrow> jsval" where
  "Cookies_get s name = (case cookies s name of Some v \<Rightarrow> JStr v | None \<Rightarrow> JUndefined)"

text \<open>The end of the effect: nothing found, the form is shown.\<close>

definition noConfigurationFound :: "lib \<Rightarrow> state \<Rightarrow> state" where
  "noConfigurationFound env s =
     addLog env Info ''Voice Manager initialized - Please configure your platform'' None
       (s\<lparr> showConfigForm := True \<rparr>)"

text \<open>The part of the effect that reads the cookies (\<open>// Check cookies for legacy config\<close>).\<close>

definition checkCookies :: "lib \<Rightarrow> state \<Rightarrow> state" where
  "checkCookies env s =
     (let apiKey = Cookies_get s ''apiKey'';
          platform = Cookies_get s ''platform''
      in if truthy platform then
           if platform = JStr ''trello'' then
             (let token = Cookies_get s ''token'';
                  boardId = Cookies_get s ''boardId''
              in if truthy apiKey \<and> truthy token \<and> truthy boardId then
                   addLog env Info ''Connected to Trello'' None
                     (s\<lparr> selectedTool := Some ''trello'', isConfigured := True,
                         platformConfig :=
                           JObj [(''apiKey'', apiKey), (''token'', token), (''boardId'', boardId)] \<rparr>)
                 else noConfigurationFound env s)
           else if platform = JStr ''linear'' then
             (let workspaceId = Cookies_get s ''workspaceId''
              in if truthy apiKey \<and> truthy workspaceId then
                   addLog env Info ''Connected to Linear'' None
                     (s\<lparr> selectedTool := Some ''linear'', isConfigured := True,
                         platformConfig :=
                           JObj [(''apiKey'', apiKey), (''workspaceId'', workspaceId)] \<rparr>)
                 else noConfigurationFound env s)
           else if platform = JStr ''asana'' then
             (let personalAccessToken = Cookies_get s ''personalAccessToken'';
                  projectId = Cookies_get s ''projectId''
              in if truthy personalAccessToken \<and> truthy projectId then
                   addLog env Info ''Connected to Asana'' None
                     (s\<lparr> selectedTool := Some ''asana'', isConfigured := True,
                         platformConfig :=
                           JObj [(''personalAccessToken'', personalAccessToken),
                                 (''projectId'', projectId)] \<rparr>)
                 else noConfigurationFound env s)
           else noConfigurationFound env s
         else noConfigurationFound env s)"

text \<open>
  The part that reads \<open>localStorage.getItem('asana_config')\<close>; a record that does not parse
  is reported with \<open>console.error\<close> and the effect goes on to the cookies.
\<close>

definition checkAsanaStorage :: "lib \<Rightarrow> state \<Rightarrow> state" where
  "checkAsanaStorage env s =
     (case localStorage s ''asana_config'' of
        None \<Rightarrow> checkCookies env s
      | Some asanaConfig \<Rightarrow>
          if asanaConfig = [] then checkCookies env s
          else (case JSON_parse env asanaConfig of
                  Some config \<Rightarrow>
                    addLog env Info ''Connected to Asana'' None
                      (s\<lparr> selectedTool := Some ''asana'', platformConfig := config,
                          isConfigured := True \<rparr>)
                | None \<Rightarrow>
                    checkCookies env
                      (s\<lparr> console := console s @ [''Error parsing Asana config:''] \<rparr>)))"

text \<open>The part that reads \<open>localStorage.getItem('linear_config')\<close>.\<close>

definition checkLinearStorage :: "lib \<Rightarrow> state \<Rightarrow> state" where
  "checkLinearStorage env s =
     (case localStorage s ''linear_config'' of
        None \<Rightarrow> checkAsanaStorage env s
      | Some linearConfig \<Rightarrow>
          if linearConfig = [] then checkAsanaStorage env s
          else (case JSON_parse env linearConfig of
                  Some config \<Rightarrow>
                    addLog env Info ''Connected to Linear'' None
                      (s\<lparr> selectedTool := Some ''linear'', platformConfig := config,
                          isConfigured := True \<rparr>)
                | None \<Rightarrow>
                    checkAsanaStorage env
                      (s\<lparr> console := console s @ [''Error parsing Linear config:''] \<rparr>)))"

text \<open>\<open>state && state.platform\<close>: the platform the navigation payload carries, if any.\<close>

definition navPlatform :: "NavState option \<Rightarrow> string option" where
  "navPlatform st =
     (case st of
        None \<Rightarrow> None
      | Some n \<Rightarrow> (case nav_platform n of None \<Rightarrow> None | Some p \<Rightarrow> if p = [] then None else Some p))"

text \<open>
  The whole effect \<open>// Platform detection from navigation state or localStorage\<close>, run with
  \<open>location.state = st\<close>.
\<close>

definition platformDetection :: "lib \<Rightarrow> NavState option \<Rightarrow> state \<Rightarrow> state" where
  "platformDetection env st s =
     (case (st, navPlatform st) of
        (Some n, Some p) \<Rightarrow>
          addLog env Info (''Connected to '' @ capitalize env p) None
            (if truthy (nav_config n)
             then s\<lparr> selectedTool := Some p, platformConfig := nav_config n, isConfigured := True \<rparr>
             else s\<lparr> selectedTool := Some p \<rparr>)
      | _ \<Rightarrow> checkLinearStorage env s)"

section \<open>Session operations of the dashboard\<close>






text \<open>
  \<open>selectedTool?.charAt(0).toUpperCase() + selectedTool?.slice(1)\<close>: with no tool selected
  both operands are \<open>undefined\<close> and their sum is \<open>NaN\<close>.
\<close>

definition handleConfigSave :: "lib \<Rightarrow> jsval \<Rightarrow> state \<Rightarrow> state" where
  "handleConfigSave env cfg s =
     addLog env Success
       ((case selectedTool s of None \<Rightarrow> ''NaN'' | Some t \<Rightarrow> capitalize env t)
          @ '' configuration saved successfully'') None
       (s\<lparr> platformConfig := cfg, isConfigured := True, showConfigForm := False \<rparr>)"


text \<open>\<open>Cookies.remove(name)\<close>\<close>

definition Cookies_remove :: "string \<Rightarrow> state \<Rightarrow> state" where
  "Cookies_remove name s = s\<lparr> cookies := (cookies s)(name := None) \<rparr>"

definition confirmSwitchApp :: "lib \<Rightarrow> state \<Rightarrow> state" where
  "confirmSwitchApp env s =
     (let s1 = Cookies_remove ''platform''
                (Cookies_remove ''projectId''
                  (Cookies_remove ''personalAccessToken''
                    (Cookies_remove ''workspaceId''
                      (Cookies_remove ''boardId''
                        (Cookies_remove ''token''
                          (Cookies_remove ''apiKey'' s))))));
          s2 = s1\<lparr> selectedTool := None, isConfigured := False, platformConfig := JNull,
                   showSwitchConfirm := False \<rparr>;
          s3 = addLog env Info ''Switched to different app'' None s2
      in s3\<lparr> navigations := navigations s3 @ [''/select-app''] \<rparr>)"


section \<open>The configuration forms\<close>

text \<open>
  The state of a form: the fields typed so far (\<open>{ ...prev, [field]: value }\<close>), read through
  the unchecked casts \<open>config as TrelloConfig\<close> and so on, so a field may be missing.
\<close>

type_synonym form = "(string \<times> string) list"

definition formObject :: "form \<Rightarrow> jsval" where
  "formObject fd = JObj (map (\<lambda>(k, v). (k, JStr v)) fd)"

text \<open>
  \<open>ConfigurationForm.handleSubmit\<close> with the props \<open>selectedTool\<close> and
  \<open>onConfigSave = handleConfigSave\<close> that the dashboard passes.
\<close>

definition ConfigurationForm_handleSubmit :: "lib \<Rightarrow> string \<Rightarrow> form \<Rightarrow> state \<Rightarrow> state" where
  "ConfigurationForm_handleSubmit env tool fd s =
     (if tool = ''trello'' then
        (case (map_of fd ''apiKey'', map_of fd ''token'', map_of fd ''boardId'') of
           (Some apiKey, Some token, Some boardId) \<Rightarrow>
             if apiKey \<noteq> [] \<and> token \<noteq> [] \<and> boardId \<noteq> [] then
               (let s1 = handleConfigSave env (formObject fd) s
                in s1\<lparr> cookies := (cookies s1)(''apiKey'' \<mapsto> apiKey, ''token'' \<mapsto> token,
                                              ''boardId'' \<mapsto> boardId, ''platform'' \<mapsto> ''trello'') \<rparr>)
             else s
         | _ \<Rightarrow> s)
      else if tool = ''linear'' then
        (case (map_of fd ''apiKey'', map_of fd ''workspaceId'') of
           (Some apiKey, Some workspaceId) \<Rightarrow>
             if apiKey \<noteq> [] \<and> workspaceId \<noteq> [] then
               (let s1 = handleConfigSave env (formObject fd) s
                in s1\<lparr> localStorage :=
                         (localStorage s1)(''linear_config'' \<mapsto> JSON_stringify env (formObject fd)),
                       cookies := (cookies s1)(''apiKey'' \<mapsto> apiKey, ''workspaceId'' \<mapsto> workspaceId,
                                              ''platform'' \<mapsto> ''linear'') \<rparr>)
             else s
         | _ \<Rightarrow> s)
      else if tool = ''asana'' then
        (case (map_of fd ''personalAccessToken'', map_of fd ''projectId'') of
           (Some personalAccessToken, Some projectId) \<Rightarrow>
             if personalAccessToken \<noteq> [] \<and> projectId \<noteq> [] then
               (let s1 = handleConfigSave env (formObject fd) s
                in s1\<lparr> localStorage :=
                         (localStorage s1)(''asana_config'' \<mapsto> JSON_stringify env (formObject fd)),
                       cookies := (cookies s1)(''personalAccessToken'' \<mapsto> personalAccessToken,
                                              ''projectId'' \<mapsto> projectId,
                                              ''platform'' \<mapsto> ''asana'') \<rparr>)
             else s
         | _ \<Rightarrow> s)
      else s)"

text \<open>The page \<open>ConfigureApp\<close>: its own state, and what it asked of the browser.\<close>

record field_spec =
  f_name :: string
  f_label :: string
  f_required :: bool

record configure_page =
  formData :: form
  isSubmitting :: bool
  isSuccess :: bool
  alerts :: "string list"
  navigated :: "(string \<times> NavState) option"

definition appConfigs :: "string \<Rightarrow> field_spec list option" where
  "appConfigs appId =
     (if appId = ''linear'' then
        Some [\<lparr> f_name = ''apiKey'', f_label = ''Linear API Key'', f_required = True \<rparr>,
              \<lparr> f_name = ''workspaceId'', f_label = ''Workspace ID'', f_required = True \<rparr>]
      else if appId = ''asana'' then
        Some [\<lparr> f_name = ''personalAccessToken'', f_label = ''Personal Access Token'', f_required = True \<rparr>,
              \<lparr> f_name = ''projectId'', f_label = ''Project ID'', f_required = True \<rparr>]
      else None)"

text \<open>\<open>xs.join(', ')\<close>\<close>

fun join :: "string list \<Rightarrow> string" where
  "join [] = []"
| "join [x] = x"
| "join (x # y # ys) = x @ '', '' @ join (y # ys)"

text \<open>\<open>!formData[name]\<close>: the field is missing or empty.\<close>

definition fieldEmpty :: "form \<Rightarrow> string \<Rightarrow> bool" where
  "fieldEmpty fd n = (case map_of fd n of None \<Rightarrow> True | Some v \<Rightarrow> v = [])"

text \<open>
  \<open>ConfigureApp.handleSubmit\<close>, to the end of its timers; the page renders the form only for an
  \<open>appId\<close> that \<open>appConfigs\<close> knows.
\<close>

definition ConfigureApp_handleSubmit ::
  "lib \<Rightarrow> string \<Rightarrow> configure_page \<times> state \<Rightarrow> configure_page \<times> state" where
  "ConfigureApp_handleSubmit env appId ps =
     (case ps of (pg, s) \<Rightarrow>
        (case appConfigs appId of
           None \<Rightarrow> (pg, s)
         | Some fs \<Rightarrow>
             (let missingFields =
                    map f_label (filter (\<lambda>f. f_required f \<and> fieldEmpty (formData pg) (f_name f)) fs)
              in if length missingFields > 0 then
                   (pg\<lparr> alerts := alerts pg @
                          [''Please fill in the following required fields: '' @ join missingFields],
                        isSubmitting := False \<rparr>, s)
                 else
                   (pg\<lparr> isSuccess := True, isSubmitting := False,
                        navigated := Some (''/dashboard'',
                          \<lparr> nav_platform = Some appId, nav_token = None,
                            nav_config = formObject (formData pg) \<rparr>) \<rparr>,
                    if appId = ''linear'' then
                      s\<lparr> localStorage := (localStorage s)
                           (''linear_config'' \<mapsto> JSON_stringify env (formObject (formData pg))) \<rparr>
                    else if appId = ''asana'' then
                      s\<lparr> localStorage := (localStorage s)
                           (''asana_config'' \<mapsto> JSON_stringify env (formObject (formData pg))) \<rparr>
                    else s))))"

section \<open>Recording\<close>

text \<open>
  What the collaborators answer during one action: \<open>audioRecorder.current.startRecording()\<close>
  and \<open>stopRecording()\<close> resolve (\<open>None\<close>) or reject with an error message;
  \<open>sendAudioToBackend\<close> rejects, or answers with a body that \<open>res.json()\<close> cannot parse, or
  with a parsed body.
\<close>

datatype gateway_result = TransportFailure string | UnparseableBody | Body jsval

record outcomes =
  recorderStart :: "string option"
  recorderStop :: "string option"
  gateway :: gateway_result

definition startRecording :: "lib \<Rightarrow> outcomes \<Rightarrow> state \<Rightarrow> state" where
  "startRecording env out s =
     (let s0 = s\<lparr> deviceAcquisitions := deviceAcquisitions s + 1 \<rparr>
      in case recorderStart out of
           None \<Rightarrow>
             (let s1 = addLog env Info ''Listening...'' None
                         (s0\<lparr> recordingStatus := Recording, recordingTime := 0 \<rparr>)
              in s1\<lparr> recordingInterval := Some (nextIntervalId s1),
                     liveIntervals := nextIntervalId s1 # liveIntervals s1,
                     nextIntervalId := nextIntervalId s1 + 1 \<rparr>)
         | Some msg \<Rightarrow> addLog env Error (''Failed to start recording: '' @ msg) None s0)"

text \<open>One second passes: every interval that is alive runs \<open>setRecordingTime(prev => prev + 1)\<close>.\<close>

definition oneSecond :: "state \<Rightarrow> state" where
  "oneSecond s = s\<lparr> recordingTime := recordingTime s + length (liveIntervals s) \<rparr>"

text \<open>
  \<open>if (recordingInterval.current) { clearInterval(...); recordingInterval.current = null; }\<close>
\<close>

definition clearRecordingInterval :: "state \<Rightarrow> state" where
  "clearRecordingInterval s =
     (case recordingInterval s of
        None \<Rightarrow> s
      | Some h \<Rightarrow> s\<lparr> liveIntervals := removeAll h (liveIntervals s), recordingInterval := None \<rparr>)"

text \<open>What a template literal puts for a value.\<close>

definition interpolate :: "lib \<Rightarrow> jsval \<Rightarrow> string" where
  "interpolate env v =
     (case v of
        JStr s \<Rightarrow> s
      | JUndefined \<Rightarrow> ''undefined''
      | JNull \<Rightarrow> ''null''
      | JBool b \<Rightarrow> (if b then ''true'' else ''false'')
      | _ \<Rightarrow> toString env v)"

text \<open>The body of \<open>data.results.forEach((result) => ...)\<close> for a \<open>result\<close> with properties.\<close>

definition logResult :: "lib \<Rightarrow> jsval \<Rightarrow> state \<Rightarrow> state" where
  "logResult env result s =
     (if truthy (getField result ''success'') then
        addLog env Task
          (''Task '' @ (if getField result ''operation'' = JStr ''create'' then ''created''
                        else interpolate env (getField result ''operation''))
            @ (if truthy (getField result ''task'')
               then '': '' @ interpolate env (getField result ''task'') else []))
          (Some [(''taskName'', getField result ''task''),
                 (''taskStatus'', getField result ''operation'')]) s
      else
        addLog env Error
          (''Task operation failed''
            @ (if truthy (getField result ''task'')
               then '' for: '' @ interpolate env (getField result ''task'') else [])
            @ (if truthy (getField result ''error'')
               then '' - '' @ interpolate env (getField result ''error'') else []))
          None s)"

text \<open>
  The \<open>forEach\<close>: reading \<open>result.success\<close> of a \<open>null\<close> or \<open>undefined\<close> element throws, which
  ends the loop; the result is the state so far and the error thrown, if any.
\<close>

fun forEachResult :: "lib \<Rightarrow> jsval list \<Rightarrow> state \<Rightarrow> string option \<times> state" where
  "forEachResult env [] s = (None, s)"
| "forEachResult env (result # rest) s =
     (if result = JNull \<or> result = JUndefined
      then (Some (typeErrorMessage env result ''success''), s)
      else forEachResult env rest (logResult env result s))"

text \<open>
  The inner \<open>try\<close> of \<open>stopRecording\<close> from the answer of \<open>sendAudioToBackend\<close> on; whatever
  is thrown inside it lands in \<open>catch (error)\<close> with \<open>Failed to send audio\<close>.
\<close>

definition handleGateway :: "lib \<Rightarrow> gateway_result \<Rightarrow> state \<Rightarrow> state" where
  "handleGateway env g s =
     (case g of
        TransportFailure msg \<Rightarrow> addLog env Error (''Failed to send audio: '' @ msg) None s
      | UnparseableBody \<Rightarrow> addLog env Error ''Failed to parse backend response as JSON'' None s
      | Body data \<Rightarrow>
          if data = JNull \<or> data = JUndefined then
            addLog env Error
              (''Failed to send audio: '' @ typeErrorMessage env data ''transcript'') None s
          else
            (let s1 = (if truthy (getField data ''transcript'')
                       then (addLog env Transcribed
                               (''Transcribed: '' @ interpolate env (getField data ''transcript''))
                               None s)
                            \<lparr> latestResponse := getField data ''transcript'' \<rparr>
                       else s)
             in case getField data ''results'' of
                  JArr results \<Rightarrow>
                    (case forEachResult env results s1 of
                       (None, s2) \<Rightarrow> s2
                     | (Some msg, s2) \<Rightarrow>
                         addLog env Error (''Failed to send audio: '' @ msg) None s2)
                | _ \<Rightarrow> s1))"

text \<open>
  \<open>stopRecording\<close> after \<open>audioRecorder.current.stopRecording()\<close> has resolved, up to the call
  of \<open>sendAudioToBackend\<close>.
\<close>

definition recorderStopped :: "lib \<Rightarrow> state \<Rightarrow> state" where
  "recorderStopped env s =
     addLog env Voice ''Voice received'' None
       ((clearRecordingInterval
           (addLog env Success ''Processing...'' None (s\<lparr> recordingStatus := Idle \<rparr>)))
          \<lparr> recordingTime := 0 \<rparr>)"

text \<open>The outer \<open>catch\<close>: \<open>audioRecorder.current.stopRecording()\<close> rejected.\<close>

definition recorderStopFailed :: "lib \<Rightarrow> string \<Rightarrow> state \<Rightarrow> state" where
  "recorderStopFailed env msg s =
     (addLog env Error (''Failed to stop recording: '' @ msg) None s)\<lparr> recordingStatus := Idle \<rparr>"

text \<open>
  \<open>stopRecording\<close> from the answer of \<open>audioRecorder.current.stopRecording()\<close> to the
  point where the handler yields at \<open>await sendAudioToBackend(...)\<close>. The component is then
  live again, with the request in flight.
\<close>

definition stopRecording :: "lib \<Rightarrow> outcomes \<Rightarrow> state \<Rightarrow> state" where
  "stopRecording env out s =
     (case recorderStop out of
        Some msg \<Rightarrow> recorderStopFailed env msg s
      | None \<Rightarrow> recorderStopped env s)"

text \<open>
  The rest of \<open>stopRecording\<close>, run when the gateway has answered (or failed), on the state
  the component is in by then: every update it makes is an updater of the current state.
\<close>

definition stopRecording_resumed :: "lib \<Rightarrow> outcomes \<Rightarrow> state \<Rightarrow> state" where
  "stopRecording_resumed env out s = handleGateway env (gateway out) s"

text \<open>
  A click on the record button:
  \<open>onClick={recordingStatus === 'idle' ? startRecording : stopRecording}\<close>,
  \<open>disabled={!isConfigured}\<close>.
\<close>

definition clickRecordButton :: "lib \<Rightarrow> outcomes \<Rightarrow> state \<Rightarrow> state" where
  "clickRecordButton env out s =
     (if \<not> isConfigured s then s
      else if recordingStatus s = Idle then startRecording env out s
      else stopRecording env out s)"

text \<open>
  What can happen to a mounted dashboard as far as recording goes: a click on the record button
  (with the recorder's answer), the gateway's answer to a request in flight, a second passing.
\<close>

datatype event = ClickRecord outcomes | GatewayAnswers outcomes | SecondPasses

fun step :: "lib \<Rightarrow> event \<Rightarrow> state \<Rightarrow> state" where
  "step env (ClickRecord out) s = clickRecordButton env out s"
| "step env (GatewayAnswers out) s = stopRecording_resumed env out s"
| "step env SecondPasses s = oneSecond s"

fun run :: "lib \<Rightarrow> event list \<Rightarrow> state \<Rightarrow> state" where
  "run env [] s = s"
| "run env (ev # evs) s = run env evs (step env ev s)"

section \<open>Complete configurations\<close>

text \<open>
  A variant is complete when every field its interface declares (\<open>TrelloConfig\<close>,
  \<open>LinearConfig\<close>, \<open>AsanaConfig\<close>) is a non-empty string; a tool with no variant has no complete
  configuration.
\<close>

definition nonEmptyString :: "jsval \<Rightarrow> bool" where
  "nonEmptyString v = (case v of JStr s \<Rightarrow> s \<noteq> [] | _ \<Rightarrow> False)"

definition complete :: "string option \<Rightarrow> jsval \<Rightarrow> bool" where
  "complete tool cfg =
     (if tool = Some ''trello'' then
        nonEmptyString (getField cfg ''apiKey'') \<and> nonEmptyString (getField cfg ''token'')
          \<and> nonEmptyString (getField cfg ''boardId'')
      else if tool = Some ''linear'' then
        nonEmptyString (getField cfg ''apiKey'') \<and> nonEmptyString (getField cfg ''workspaceId'')
      else if tool = Some ''asana'' then
        nonEmptyString (getField cfg ''personalAccessToken'')
          \<and> nonEmptyString (getField cfg ''projectId'')
      else False)"

text \<open>The fields each variant requires, as \<open>isFormValid\<close> and \<open>appConfigs\<close> list them.\<close>

definition requiredFields :: "string \<Rightarrow> string list" where
  "requiredFields tool =
     (if tool = ''trello'' then [''apiKey'', ''token'', ''boardId'']
      else if tool = ''linear'' then [''apiKey'', ''workspaceId'']
      else if tool = ''asana'' then [''personalAccessToken'', ''projectId'']
      else [])"

section \<open>Sample browser states for evaluation\<close>

definition sample_cookies :: "string \<rightharpoonup> string" where
  "sample_cookies =
     [''platform'' \<mapsto> ''trello'', ''apiKey'' \<mapsto> ''k1'', ''token'' \<mapsto> ''t1'', ''boardId'' \<mapsto> ''b1'']"

definition sample_storage :: "string \<rightharpoonup> string" where
  "sample_storage = [''linear_config'' \<mapsto> ''{}'']"

definition sample_ok :: outcomes where
  "sample_ok = \<lparr> recorderStart = None, recorderStop = None, gateway = Body (JObj []) \<rparr>"

definition sample_stop_fails :: outcomes where
  "sample_stop_fails =
     \<lparr> recorderStart = None, recorderStop = Some ''no recorder'', gateway = Body (JObj []) \<rparr>"

text \<open>Mounted with the Trello cookies set and nothing else; then the record button is clicked.\<close>

definition sample_configured :: state where
  "sample_configured = platformDetection sample_env None (initial_state Map.empty sample_cookies)"

definition sample_recording :: state where
  "sample_recording = clickRecordButton sample_env sample_ok sample_configured"

section \<open>What platform detection decides\<close>

text \<open>The session an activation resolves to, the form it asks for, and the log.\<close>

definition resolved :: "state \<Rightarrow> string option \<times> jsval \<times> bool \<times> bool \<times> LogEntry list" where
  "resolved s = (selectedTool s, platformConfig s, isConfigured s, showConfigForm s, logs s)"

text \<open>
  A stored record as platform detection meets it: one it reads and \<open>JSON.parse\<close> rejects, or
  one it reads and \<open>JSON.parse\<close> accepts. An empty record is neither: \<open>if (linearConfig)\<close>
  skips it unread.
\<close>

definition unparseable :: "lib \<Rightarrow> (string \<rightharpoonup> string) \<Rightarrow> string \<Rightarrow> bool" where
  "unparseable env ls key =
     (case ls key of None \<Rightarrow> False | Some raw \<Rightarrow> raw \<noteq> [] \<and> JSON_parse env raw = None)"

definition usable :: "lib \<Rightarrow> (string \<rightharpoonup> string) \<Rightarrow> string \<Rightarrow> bool" where
  "usable env ls key =
     (case ls key of None \<Rightarrow> False | Some raw \<Rightarrow> raw \<noteq> [] \<and> JSON_parse env raw \<noteq> None)"

text \<open>
  What the one log entry says when no platform came with the navigation, against what the
  effect did to the state \<open>s\<close>: connected to a tool, which is then selected and configured, or
  nothing found, the form asked for and the session left as it was.
\<close>

definition names_outcome :: "lib \<Rightarrow> state \<Rightarrow> state \<Rightarrow> bool" where
  "names_outcome env s s' =
     ((logs s' = logs (addLog env Info ''Connected to Linear'' None s)
         \<and> selectedTool s' = Some ''linear'' \<and> isConfigured s')
      \<or> (logs s' = logs (addLog env Info ''Connected to Asana'' None s)
         \<and> selectedTool s' = Some ''asana'' \<and> isConfigured s')
      \<or> (logs s' = logs (addLog env Info ''Connected to Trello'' None s)
         \<and> selectedTool s' = Some ''trello'' \<and> isConfigured s')
      \<or> (logs s' = logs (addLog env Info
                  ''Voice Manager initialized - Please configure your platform'' None s)
         \<and> showConfigForm s' \<and> selectedTool s' = selectedTool s
         \<and> platformConfig s' = platformConfig s \<and> isConfigured s' = isConfigured s))"

section \<open>States the dashboard can be in\<close>






text \<open>Configured with a complete config, or unconfigured with none.\<close>

definition session_ok :: "state \<Rightarrow> bool" where
  "session_ok s =
     (if isConfigured s then complete (selectedTool s) (platformConfig s)
      else platformConfig s = JNull)"



section \<open>Properties of the activity log\<close>

lemma set_sort_insert: "set (sort_insert c x ys) = insert x (set ys)"
  by (induction ys) auto

lemma set_array_sort: "set (array_sort c xs) = set xs"
  by (induction xs) (auto simp: set_sort_insert)

lemma length_sort_insert: "length (sort_insert c x ys) = Suc (length ys)"
  by (induction ys) auto

lemma length_array_sort: "length (array_sort c xs) = length xs"
  by (induction xs) (auto simp: length_sort_insert)

lemma length_updateLogs: "length (updateLogs env e prev) \<le> 50"
  unfolding updateLogs_def length_array_sort by simp

lemma newer_or_same_trans:
  "newer_or_same env a b \<Longrightarrow> newer_or_same env b c \<Longrightarrow> newer_or_same env a c"
  by (auto simp: newer_or_same_def split: option.splits)

lemma compare_pos_newer:
  "timeKey env x \<noteq> None \<Longrightarrow> timeKey env y \<noteq> None \<Longrightarrow>
   \<not> compareLogs env x y \<le> 0 \<Longrightarrow> newer_or_same env y x"
  by (auto simp: compareLogs_def newer_or_same_def split: option.splits)

lemma compare_nonpos_newer:
  "timeKey env x \<noteq> None \<Longrightarrow> timeKey env y \<noteq> None \<Longrightarrow>
   compareLogs env x y \<le> 0 \<Longrightarrow> newer_or_same env x y"
  by (auto simp: compareLogs_def newer_or_same_def split: option.splits)

lemma sorted_sort_insert:
  assumes "timeKey env x \<noteq> None" and "\<forall>y \<in> set ys. timeKey env y \<noteq> None"
    and "sorted_wrt (newer_or_same env) ys"
  shows "sorted_wrt (newer_or_same env) (sort_insert (compareLogs env) x ys)"
  using assms
proof (induction ys)
  case Nil
  then show ?case by simp
next
  case (Cons y ys)
  show ?case
  proof (cases "compareLogs env x y \<le> 0")
    case True
    with Cons.prems have xy: "newer_or_same env x y"
      by (simp add: compare_nonpos_newer)
    have "\<forall>z \<in> set ys. newer_or_same env x z"
      using Cons.prems(3) xy newer_or_same_trans by auto
    with True xy Cons.prems(3) show ?thesis by simp
  next
    case False
    with Cons.prems have yx: "newer_or_same env y x"
      by (simp add: compare_pos_newer)
    have "sorted_wrt (newer_or_same env) (sort_insert (compareLogs env) x ys)"
      using Cons by simp
    with False yx Cons.prems(3) show ?thesis
      by (auto simp: set_sort_insert)
  qed
qed

lemma sorted_array_sort:
  "\<forall>y \<in> set xs. timeKey env y \<noteq> None \<Longrightarrow>
   sorted_wrt (newer_or_same env) (array_sort (compareLogs env) xs)"
  by (induction xs) (auto simp: sorted_sort_insert set_array_sort)

lemma newest_first_updateLogs:
  assumes "timeKey env e \<noteq> None" and "\<forall>y \<in> set prev. timeKey env y \<noteq> None"
  shows "newest_first env (updateLogs env e prev)"
proof -
  have "\<forall>y \<in> set (take 50 (e # prev)). timeKey env y \<noteq> None"
    using assms by (auto dest: in_set_takeD)
  then show ?thesis
    unfolding newest_first_def updateLogs_def by (rule sorted_array_sort)
qed

lemma set_updateLogs: "set (updateLogs env e prev) \<subseteq> insert e (set prev)"
  using set_take_subset [of 50 "e # prev"] unfolding updateLogs_def set_array_sort by simp

lemma logs_addLog:
  "logs (addLog env ty msg det s) =
     updateLogs env \<lparr> id_str = fst (clock env (clockReads s)),
                       timestamp = snd (clock env (clockReads s)),
                       type = ty, message = msg, details = det \<rparr> (logs s)"
  by (simp add: addLog_def Let_def)

lemma length_logs_addLog: "length (logs (addLog env ty msg det s)) \<le> 50"
  unfolding logs_addLog by (rule length_updateLogs)

lemma length_logs_addLogs:
  "length (logs s) \<le> 50 \<Longrightarrow> length (logs (addLogs env cs s)) \<le> 50"
proof (induction cs arbitrary: s)
  case Nil
  then show ?case by simp
next
  case (Cons c cs)
  obtain ty msg det where c: "c = (ty, msg, det)" by (cases c) auto
  show ?case unfolding c by (simp add: Cons.IH length_logs_addLog)
qed

lemma keys_addLog:
  assumes "\<forall>n. Date_parse env (''1970-01-01 '' @ snd (clock env n)) \<noteq> None"
    and "\<forall>e \<in> set (logs s). timeKey env e \<noteq> None"
  shows "\<forall>e \<in> set (logs (addLog env ty msg det s)). timeKey env e \<noteq> None"
proof
  fix e assume "e \<in> set (logs (addLog env ty msg det s))"
  then have "e = \<lparr> id_str = fst (clock env (clockReads s)),
                     timestamp = snd (clock env (clockReads s)),
                     type = ty, message = msg, details = det \<rparr> \<or> e \<in> set (logs s)"
    unfolding logs_addLog using set_updateLogs by fastforce
  then show "timeKey env e \<noteq> None"
    using assms by (auto simp: timeKey_def)
qed

lemma newest_first_addLog:
  assumes "\<forall>n. Date_parse env (''1970-01-01 '' @ snd (clock env n)) \<noteq> None"
    and "\<forall>e \<in> set (logs s). timeKey env e \<noteq> None"
  shows "newest_first env (logs (addLog env ty msg det s))"
  unfolding logs_addLog
  by (rule newest_first_updateLogs) (use assms in \<open>simp_all add: timeKey_def\<close>)

lemma newest_first_addLogs:
  assumes "\<forall>n. Date_parse env (''1970-01-01 '' @ snd (clock env n)) \<noteq> None"
  shows "\<forall>e \<in> set (logs s). timeKey env e \<noteq> None \<Longrightarrow> newest_first env (logs s) \<Longrightarrow>
         newest_first env (logs (addLogs env cs s))"
proof (induction cs arbitrary: s)
  case Nil
  then show ?case by simp
next
  case (Cons c cs)
  obtain ty msg det where c: "c = (ty, msg, det)" by (cases c) auto
  have "newest_first env (logs (addLogs env cs (addLog env ty msg det s)))"
    by (rule Cons.IH) (use assms Cons.prems in \<open>simp_all add: keys_addLog newest_first_addLog\<close>)
  then show ?case by (simp add: c)
qed

lemma mset_sort_insert: "mset (sort_insert c x ys) = add_mset x (mset ys)"
  by (induction ys) auto

lemma mset_array_sort: "mset (array_sort c xs) = mset xs"
  by (induction xs) (auto simp: mset_sort_insert)

lemma mset_updateLogs: "mset (updateLogs env e prev) = mset (take 50 (e # prev))"
  unfolding updateLogs_def by (rule mset_array_sort)

lemma sort_insert_unread:
  "timeKey env x = None \<Longrightarrow> sort_insert (compareLogs env) x ys = x # ys"
  by (cases ys) (simp_all add: compareLogs_def)

lemma array_sort_unread:
  "\<forall>x \<in> set xs. timeKey env x = None \<Longrightarrow> array_sort (compareLogs env) xs = xs"
  by (induction xs) (simp_all add: sort_insert_unread)

lemma updateLogs_unread:
  assumes "timeKey env e = None" and "\<forall>y \<in> set prev. timeKey env y = None"
  shows "updateLogs env e prev = take 50 (e # prev)"
proof -
  have "\<forall>y \<in> set (take 50 (e # prev)). timeKey env y = None"
    using assms by (auto dest: in_set_takeD)
  then show ?thesis
    unfolding updateLogs_def by (rule array_sort_unread)
qed

lemma logs_addLog_newLog:
  "logs (addLog env ty msg det s) = updateLogs env (newLog env ty msg det s) (logs s)"
  by (simp add: addLog_def newLog_def Let_def)

lemma timeKey_newLog:
  "timeKey env (newLog env ty msg det s)
     = Date_parse env (''1970-01-01 '' @ snd (clock env (clockReads s)))"
  by (simp add: timeKey_def newLog_def)

lemma keys_addLogs:
  assumes "\<forall>n. Date_parse env (''1970-01-01 '' @ snd (clock env n)) \<noteq> None"
  shows "\<forall>e \<in> set (logs s). timeKey env e \<noteq> None \<Longrightarrow>
         \<forall>e \<in> set (logs (addLogs env cs s)). timeKey env e \<noteq> None"
proof (induction cs arbitrary: s)
  case Nil
  then show ?case by simp
next
  case (Cons c cs)
  obtain ty msg det where c: "c = (ty, msg, det)" by (cases c) auto
  have "\<forall>e \<in> set (logs (addLogs env cs (addLog env ty msg det s))). timeKey env e \<noteq> None"
    by (rule Cons.IH) (rule keys_addLog [OF assms Cons.prems])
  then show ?case by (simp add: c)
qed

lemma unread_addLog:
  assumes "\<forall>n. Date_parse env (''1970-01-01 '' @ snd (clock env n)) = None"
    and "\<forall>e \<in> set (logs s). timeKey env e = None"
  shows "\<forall>e \<in> set (logs (addLog env ty msg det s)). timeKey env e = None"
proof
  fix e assume "e \<in> set (logs (addLog env ty msg det s))"
  then have "e = newLog env ty msg det s \<or> e \<in> set (logs s)"
    unfolding logs_addLog_newLog using set_updateLogs by fastforce
  then show "timeKey env e = None"
    using assms by (auto simp: timeKey_newLog)
qed

lemma unread_addLogs:
  assumes "\<forall>n. Date_parse env (''1970-01-01 '' @ snd (clock env n)) = None"
  shows "\<forall>e \<in> set (logs s). timeKey env e = None \<Longrightarrow>
         \<forall>e \<in> set (logs (addLogs env cs s)). timeKey env e = None"
proof (induction cs arbitrary: s)
  case Nil
  then show ?case by simp
next
  case (Cons c cs)
  obtain ty msg det where c: "c = (ty, msg, det)" by (cases c) auto
  have "\<forall>e \<in> set (logs (addLogs env cs (addLog env ty msg det s))). timeKey env e = None"
    by (rule Cons.IH) (rule unread_addLog [OF assms Cons.prems])
  then show ?case by (simp add: c)
qed

lemma addLog_step:
  fixes s :: state
  assumes start: "logs s0 = []" and s: "s = addLogs env calls s0"
  shows "mset (logs (addLog env ty msg det s)) = mset (take 50 (newLog env ty msg det s # logs s))"
    and "length (logs (addLog env ty msg det s)) \<le> 50"
    and "(\<forall>n. Date_parse env (''1970-01-01 '' @ snd (clock env n)) \<noteq> None) \<Longrightarrow>
           newest_first env (logs (addLog env ty msg det s))"
    and "(\<forall>n. Date_parse env (''1970-01-01 '' @ snd (clock env n)) = None) \<Longrightarrow>
           logs (addLog env ty msg det s) = take 50 (newLog env ty msg det s # logs s)"
proof -
  show "mset (logs (addLog env ty msg det s)) = mset (take 50 (newLog env ty msg det s # logs s))"
    unfolding logs_addLog_newLog by (rule mset_updateLogs)
  show "length (logs (addLog env ty msg det s)) \<le> 50"
    by (rule length_logs_addLog)
next
  assume p: "\<forall>n. Date_parse env (''1970-01-01 '' @ snd (clock env n)) \<noteq> None"
  have "\<forall>e \<in> set (logs s). timeKey env e \<noteq> None"
    unfolding s by (rule keys_addLogs [OF p]) (simp add: start)
  then show "newest_first env (logs (addLog env ty msg det s))"
    by (rule newest_first_addLog [OF p])
next
  assume u: "\<forall>n. Date_parse env (''1970-01-01 '' @ snd (clock env n)) = None"
  have "\<forall>e \<in> set (logs s). timeKey env e = None"
    unfolding s by (rule unread_addLogs [OF u]) (simp add: start)
  then show "logs (addLog env ty msg det s) = take 50 (newLog env ty msg det s # logs s)"
    unfolding logs_addLog_newLog using u by (intro updateLogs_unread) (simp_all add: timeKey_newLog)
qed

text \<open>
  Claim C1, as the code has it. Take any sequence of \<open>addLog\<close> calls on a freshly mounted
  component and one more call after them. The log after that call holds exactly the entries of
  the new entry put before the previous log and cut to the first 50, so at most 50. When every
  time string the clock hands out parses to a time, the log is sorted newest first by that key.
  When none parses, the sort moves nothing: the log is the new entry followed by the previous
  log, cut to 50.
\<close>

theorem addLog_inserts_evicts_and_sorts:
  "(let s = addLogs env calls (initial_state ls ck);
        e = newLog env ty msg det s;
        s' = addLog env ty msg det s
    in mset (logs s') = mset (take 50 (e # logs s))
       \<and> length (logs s') \<le> 50
       \<and> ((\<forall>n. Date_parse env (''1970-01-01 '' @ snd (clock env n)) \<noteq> None) \<longrightarrow>
            newest_first env (logs s'))
       \<and> ((\<forall>n. Date_parse env (''1970-01-01 '' @ snd (clock env n)) = None) \<longrightarrow>
            logs s' = take 50 (e # logs s)))"
proof -
  have start: "logs (initial_state ls ck) = []"
    by (simp add: initial_state_def)
  show ?thesis
    unfolding Let_def
    using addLog_step [OF start refl, where env = env and calls = calls and ty = ty
        and msg = msg and det = det] by blast
qed

lemma sample_three_logs:
  "map message (logs (addLog sample_env Task ''c'' None
      (addLogs sample_env [(Info, ''a'', None), (Error, ''b'', None)]
         (initial_state Map.empty Map.empty)))) = [''c'', ''b'', ''a'']"
  by (simp add: addLog_def updateLogs_def compareLogs_def timeKey_def sample_env_def
      initial_state_def Let_def)

lemma sample_unread_two_logs:
  "map message (logs (addLogs sample_env_unparsed [(Info, ''a'', None), (Error, ''b'', None)]
      (initial_state Map.empty Map.empty))) = [''b'', ''a'']"
  "map (timeKey sample_env_unparsed)
     (logs (addLogs sample_env_unparsed [(Info, ''a'', None), (Error, ''b'', None)]
        (initial_state Map.empty Map.empty))) = [None, None]"
  by (simp_all add: addLog_def updateLogs_def compareLogs_def timeKey_def sample_env_def
      sample_env_unparsed_def initial_state_def Let_def)

theorem addLog_inserts_evicts_and_sorts_witness:
  "(\<forall>n. Date_parse sample_env (''1970-01-01 '' @ snd (clock sample_env n)) \<noteq> None)
   \<and> newest_first sample_env
       (logs (addLog sample_env Task ''c'' None
          (addLogs sample_env [(Info, ''a'', None), (Error, ''b'', None)]
             (initial_state Map.empty Map.empty))))
   \<and> map message
       (logs (addLog sample_env Task ''c'' None
          (addLogs sample_env [(Info, ''a'', None), (Error, ''b'', None)]
             (initial_state Map.empty Map.empty)))) = [''c'', ''b'', ''a'']
   \<and> (\<forall>n. Date_parse sample_env_unparsed
             (''1970-01-01 '' @ snd (clock sample_env_unparsed n)) = None)
   \<and> logs (addLog sample_env_unparsed Task ''c'' None
          (addLogs sample_env_unparsed [(Info, ''a'', None), (Error, ''b'', None)]
             (initial_state Map.empty Map.empty)))
       = take 50
           (newLog sample_env_unparsed Task ''c'' None
              (addLogs sample_env_unparsed [(Info, ''a'', None), (Error, ''b'', None)]
                 (initial_state Map.empty Map.empty))
            # logs (addLogs sample_env_unparsed [(Info, ''a'', None), (Error, ''b'', None)]
                 (initial_state Map.empty Map.empty)))"
proof -
  have p: "\<forall>n. Date_parse sample_env (''1970-01-01 '' @ snd (clock sample_env n)) \<noteq> None"
    by (simp add: sample_env_def)
  have u: "\<forall>n. Date_parse sample_env_unparsed
             (''1970-01-01 '' @ snd (clock sample_env_unparsed n)) = None"
    by (simp add: sample_env_unparsed_def)
  note a = addLog_inserts_evicts_and_sorts
    [of sample_env "[(Info, ''a'', None), (Error, ''b'', None)]" Map.empty Map.empty
        Task "''c''" None, unfolded Let_def]
  note b = addLog_inserts_evicts_and_sorts
    [of sample_env_unparsed "[(Info, ''a'', None), (Error, ''b'', None)]" Map.empty Map.empty
        Task "''c''" None, unfolded Let_def]
  from a p have 1: "newest_first sample_env
       (logs (addLog sample_env Task ''c'' None
          (addLogs sample_env [(Info, ''a'', None), (Error, ''b'', None)]
             (initial_state Map.empty Map.empty))))"
    by blast
  from b u have 2: "logs (addLog sample_env_unparsed Task ''c'' None
          (addLogs sample_env_unparsed [(Info, ''a'', None), (Error, ''b'', None)]
             (initial_state Map.empty Map.empty)))
       = take 50
           (newLog sample_env_unparsed Task ''c'' None
              (addLogs sample_env_unparsed [(Info, ''a'', None), (Error, ''b'', None)]
                 (initial_state Map.empty Map.empty))
            # logs (addLogs sample_env_unparsed [(Info, ''a'', None), (Error, ''b'', None)]
                 (initial_state Map.empty Map.empty)))"
    by blast
  from p u 1 2 sample_three_logs show ?thesis by blast
qed

text \<open>
  Claim C1 as the spec words it fails: on a host whose time strings do not parse, two calls
  leave a log of two entries neither of which has an ordering key, in the order they were
  put in; it is not sorted by that key.
\<close>

theorem unread_timestamps_counterexample:
  "map (timeKey sample_env_unparsed)
     (logs (addLogs sample_env_unparsed [(Info, ''a'', None), (Error, ''b'', None)]
        (initial_state Map.empty Map.empty))) = [None, None]
   \<and> \<not> newest_first sample_env_unparsed
       (logs (addLogs sample_env_unparsed [(Info, ''a'', None), (Error, ''b'', None)]
          (initial_state Map.empty Map.empty)))"
proof -
  obtain x y where l: "logs (addLogs sample_env_unparsed [(Info, ''a'', None), (Error, ''b'', None)]
        (initial_state Map.empty Map.empty)) = [x, y]"
    and k: "timeKey sample_env_unparsed x = None"
    using sample_unread_two_logs(2) by (auto simp: map_eq_Cons_conv)
  have "\<not> newest_first sample_env_unparsed [x, y]"
    by (simp add: newest_first_def newer_or_same_def k)
  then show ?thesis
    using sample_unread_two_logs(2) unfolding l by simp
qed

section \<open>Properties of platform detection\<close>

lemmas detection_defs =
  platformDetection_def navPlatform_def checkLinearStorage_def checkAsanaStorage_def
  checkCookies_def noConfigurationFound_def Cookies_get_def

lemma selectedTool_addLog [simp]: "selectedTool (addLog env ty msg det s) = selectedTool s"
  and isConfigured_addLog [simp]: "isConfigured (addLog env ty msg det s) = isConfigured s"
  and platformConfig_addLog [simp]: "platformConfig (addLog env ty msg det s) = platformConfig s"
  and localStorage_addLog [simp]: "localStorage (addLog env ty msg det s) = localStorage s"
  and cookies_addLog [simp]: "cookies (addLog env ty msg det s) = cookies s"
  and recordingStatus_addLog [simp]:
    "recordingStatus (addLog env ty msg det s) = recordingStatus s"
  and deviceAcquisitions_addLog [simp]:
    "deviceAcquisitions (addLog env ty msg det s) = deviceAcquisitions s"
  and recordingInterval_addLog [simp]:
    "recordingInterval (addLog env ty msg det s) = recordingInterval s"
  and liveIntervals_addLog [simp]: "liveIntervals (addLog env ty msg det s) = liveIntervals s"
  and recordingTime_addLog [simp]: "recordingTime (addLog env ty msg det s) = recordingTime s"
  and clockReads_addLog [simp]: "clockReads (addLog env ty msg det s) = clockReads s + 1"
  by (simp_all add: addLog_def Let_def)

text \<open>
  Claim C6. When the navigation payload carries a platform, platform detection selects that
  platform, whatever durable storage and the cookies hold: in particular when a stored record
  names another platform.
\<close>

theorem navigation_platform_wins:
  assumes "nav_platform n = Some p" and "p \<noteq> []"
  shows "selectedTool (platformDetection env (Some n) (initial_state ls ck)) = Some p"
  using assms by (simp add: platformDetection_def navPlatform_def)

theorem navigation_platform_wins_witness:
  "nav_platform \<lparr> nav_platform = Some ''trello'', nav_token = Some ''t1'', nav_config = JUndefined \<rparr>
     = Some ''trello'' \<and> ''trello'' \<noteq> [] \<and>
   selectedTool (platformDetection sample_env None (initial_state sample_storage Map.empty))
     = Some ''linear'' \<and>
   selectedTool
     (platformDetection sample_env
        (Some \<lparr> nav_platform = Some ''trello'', nav_token = Some ''t1'', nav_config = JUndefined \<rparr>)
        (initial_state sample_storage Map.empty)) = Some ''trello''"
proof -
  have "selectedTool (platformDetection sample_env None (initial_state sample_storage Map.empty))
          = Some ''linear''"
    by (simp add: detection_defs sample_storage_def sample_env_def initial_state_def)
  then show ?thesis
    using navigation_platform_wins
      [of "\<lparr> nav_platform = Some ''trello'', nav_token = Some ''t1'', nav_config = JUndefined \<rparr>"
          "''trello''" sample_env sample_storage Map.empty]
    by simp
qed

text \<open>
  Claim C10. When the navigation payload carries a platform and no config, platform detection
  on a freshly mounted component selects that platform and leaves the component unconfigured,
  and it reads neither durable storage nor the cookies: the outcome is the one for an empty
  browser, with the storage and the cookies put back as they were.
\<close>

theorem navigation_platform_without_config:
  assumes "nav_platform n = Some p" and "p \<noteq> []" and "\<not> truthy (nav_config n)"
  shows "selectedTool (platformDetection env (Some n) (initial_state ls ck)) = Some p
       \<and> \<not> isConfigured (platformDetection env (Some n) (initial_state ls ck))
       \<and> platformConfig (platformDetection env (Some n) (initial_state ls ck)) = JNull
       \<and> platformDetection env (Some n) (initial_state ls ck)
           = (platformDetection env (Some n) (initial_state Map.empty Map.empty))
               \<lparr> localStorage := ls, cookies := ck \<rparr>"
  using assms
  by (simp add: platformDetection_def navPlatform_def initial_state_def addLog_def Let_def)

theorem navigation_platform_without_config_witness:
  "nav_platform \<lparr> nav_platform = Some ''trello'', nav_token = Some ''t1'', nav_config = JUndefined \<rparr>
     = Some ''trello'' \<and> ''trello'' \<noteq> [] \<and>
   \<not> truthy (nav_config
       \<lparr> nav_platform = Some ''trello'', nav_token = Some ''t1'', nav_config = JUndefined \<rparr>) \<and>
   isConfigured (platformDetection sample_env None (initial_state sample_storage sample_cookies)) \<and>
   \<not> isConfigured
     (platformDetection sample_env
        (Some \<lparr> nav_platform = Some ''trello'', nav_token = Some ''t1'', nav_config = JUndefined \<rparr>)
        (initial_state sample_storage sample_cookies))"
proof -
  have c: "isConfigured (platformDetection sample_env None (initial_state sample_storage sample_cookies))"
    by (simp add: detection_defs sample_storage_def sample_env_def initial_state_def)
  have h: "nav_platform \<lparr> nav_platform = Some ''trello'', nav_token = Some ''t1'', nav_config = JUndefined \<rparr>
             = Some ''trello''"
    "''trello'' \<noteq> []"
    "\<not> truthy (nav_config
       \<lparr> nav_platform = Some ''trello'', nav_token = Some ''t1'', nav_config = JUndefined \<rparr>)"
    by simp_all
  have "\<not> isConfigured
     (platformDetection sample_env
        (Some \<lparr> nav_platform = Some ''trello'', nav_token = Some ''t1'', nav_config = JUndefined \<rparr>)
        (initial_state sample_storage sample_cookies))"
    using navigation_platform_without_config [OF h, of sample_env sample_storage sample_cookies]
    by blast
  with c h show ?thesis by blast
qed

section \<open>Properties of the session operations\<close>

lemma Cookies_remove_fields [simp]:
  "cookies (Cookies_remove k s) = (cookies s)(k := None)"
  "localStorage (Cookies_remove k s) = localStorage s"
  by (simp_all add: Cookies_remove_def)

lemma confirmSwitchApp_session:
  "selectedTool (confirmSwitchApp env s) = None"
  "platformConfig (confirmSwitchApp env s) = JNull"
  "isConfigured (confirmSwitchApp env s) = False"
  by (simp_all add: confirmSwitchApp_def Let_def)

lemma confirmSwitchApp_localStorage:
  "localStorage (confirmSwitchApp env s) = localStorage s"
  by (simp add: confirmSwitchApp_def Let_def)

lemma confirmSwitchApp_cookies:
  "cookies (confirmSwitchApp env s) =
     (cookies s)(''apiKey'' := None, ''token'' := None, ''boardId'' := None,
                 ''workspaceId'' := None, ''personalAccessToken'' := None,
                 ''projectId'' := None, ''platform'' := None)"
  by (simp add: confirmSwitchApp_def Let_def del: fun_upd_apply)

lemma fun_upd_None_among:
  "k = a \<or> k = b \<or> k = c \<or> k = d \<or> k = e \<or> k = f \<or> k = g \<Longrightarrow>
   (m(a := None, b := None, c := None, d := None, e := None, f := None, g := None)) k = None"
  by auto

text \<open>
  Claim C9. From any state, \<open>confirmSwitchApp\<close> leaves no tool selected, no config and the
  component unconfigured; it removes the seven cookies \<open>apiKey\<close>, \<open>token\<close>, \<open>boardId\<close>,
  \<open>workspaceId\<close>, \<open>personalAccessToken\<close>, \<open>projectId\<close> and \<open>platform\<close>, and it leaves
  \<open>localStorage\<close> as it was. (The navigation payload is an input of platform detection, which
  no operation of the dashboard writes.)
\<close>

theorem confirmSwitchApp_clears_session_and_cookies:
  "selectedTool (confirmSwitchApp env s) = None
   \<and> platformConfig (confirmSwitchApp env s) = JNull
   \<and> isConfigured (confirmSwitchApp env s) = False
   \<and> cookies (confirmSwitchApp env s) ''apiKey'' = None
   \<and> cookies (confirmSwitchApp env s) ''token'' = None
   \<and> cookies (confirmSwitchApp env s) ''boardId'' = None
   \<and> cookies (confirmSwitchApp env s) ''workspaceId'' = None
   \<and> cookies (confirmSwitchApp env s) ''personalAccessToken'' = None
   \<and> cookies (confirmSwitchApp env s) ''projectId'' = None
   \<and> cookies (confirmSwitchApp env s) ''platform'' = None
   \<and> localStorage (confirmSwitchApp env s) = localStorage s"
proof -
  have "cookies (confirmSwitchApp env s) k = None"
    if "k = ''apiKey'' \<or> k = ''token'' \<or> k = ''boardId'' \<or> k = ''workspaceId''
        \<or> k = ''personalAccessToken'' \<or> k = ''projectId'' \<or> k = ''platform''" for k
    unfolding confirmSwitchApp_cookies by (rule fun_upd_None_among) (use that in blast)
  then show ?thesis
    unfolding confirmSwitchApp_session confirmSwitchApp_localStorage by blast
qed

theorem confirmSwitchApp_clears_session_and_cookies_witness:
  "isConfigured sample_configured
   \<and> cookies sample_configured ''platform'' = Some ''trello''
   \<and> cookies sample_configured ''token'' = Some ''t1''
   \<and> isConfigured (confirmSwitchApp sample_env sample_configured) = False
   \<and> selectedTool (confirmSwitchApp sample_env sample_configured) = None
   \<and> cookies (confirmSwitchApp sample_env sample_configured) ''platform'' = None
   \<and> cookies (confirmSwitchApp sample_env sample_configured) ''token'' = None"
proof -
  have "isConfigured sample_configured
     \<and> cookies sample_configured ''platform'' = Some ''trello''
     \<and> cookies sample_configured ''token'' = Some ''t1''"
    by (simp add: sample_configured_def detection_defs sample_cookies_def initial_state_def)
  then show ?thesis
    using confirmSwitchApp_clears_session_and_cookies [of sample_env sample_configured]
    by blast
qed

section \<open>Properties of the forms\<close>

lemma ConfigurationForm_trello_incomplete:
  "fieldEmpty fd ''apiKey'' \<or> fieldEmpty fd ''token'' \<or> fieldEmpty fd ''boardId'' \<Longrightarrow>
   ConfigurationForm_handleSubmit env ''trello'' fd s = s"
  by (auto simp: ConfigurationForm_handleSubmit_def fieldEmpty_def split: option.split)

lemma ConfigurationForm_linear_incomplete:
  "fieldEmpty fd ''apiKey'' \<or> fieldEmpty fd ''workspaceId'' \<Longrightarrow>
   ConfigurationForm_handleSubmit env ''linear'' fd s = s"
  by (auto simp: ConfigurationForm_handleSubmit_def fieldEmpty_def split: option.split)

lemma ConfigurationForm_asana_incomplete:
  "fieldEmpty fd ''personalAccessToken'' \<or> fieldEmpty fd ''projectId'' \<Longrightarrow>
   ConfigurationForm_handleSubmit env ''asana'' fd s = s"
  by (auto simp: ConfigurationForm_handleSubmit_def fieldEmpty_def split: option.split)


lemma requiredFields_cases:
  assumes "f \<in> set (requiredFields tool)"
  shows "(tool = ''trello'' \<and> (f = ''apiKey'' \<or> f = ''token'' \<or> f = ''boardId''))
       \<or> (tool = ''linear'' \<and> (f = ''apiKey'' \<or> f = ''workspaceId''))
       \<or> (tool = ''asana'' \<and> (f = ''personalAccessToken'' \<or> f = ''projectId''))"
proof -
  consider "tool = ''trello''" | "tool = ''linear''" | "tool = ''asana''"
    | "tool \<noteq> ''trello''" "tool \<noteq> ''linear''" "tool \<noteq> ''asana''"
    by blast
  then show ?thesis
  proof cases
    case 1 with assms show ?thesis by (simp add: requiredFields_def)
  next
    case 2 with assms show ?thesis by (simp add: requiredFields_def)
  next
    case 3 with assms show ?thesis by (simp add: requiredFields_def)
  next
    case 4 with assms show ?thesis by (simp add: requiredFields_def)
  qed
qed

lemma ConfigureApp_linear_incomplete:
  "fieldEmpty fd ''apiKey'' \<or> fieldEmpty fd ''workspaceId'' \<Longrightarrow>
   snd (ConfigureApp_handleSubmit env ''linear'' (pg\<lparr> formData := fd \<rparr>, s)) = s
   \<and> navigated (fst (ConfigureApp_handleSubmit env ''linear'' (pg\<lparr> formData := fd \<rparr>, s)))
       = navigated pg"
  by (elim disjE; simp add: ConfigureApp_handleSubmit_def appConfigs_def Let_def)

lemma ConfigureApp_asana_incomplete:
  "fieldEmpty fd ''personalAccessToken'' \<or> fieldEmpty fd ''projectId'' \<Longrightarrow>
   snd (ConfigureApp_handleSubmit env ''asana'' (pg\<lparr> formData := fd \<rparr>, s)) = s
   \<and> navigated (fst (ConfigureApp_handleSubmit env ''asana'' (pg\<lparr> formData := fd \<rparr>, s)))
       = navigated pg"
  by (elim disjE; simp add: ConfigureApp_handleSubmit_def appConfigs_def Let_def)

lemma ConfigureApp_trello:
  "snd (ConfigureApp_handleSubmit env ''trello'' (pg\<lparr> formData := fd \<rparr>, s)) = s
   \<and> navigated (fst (ConfigureApp_handleSubmit env ''trello'' (pg\<lparr> formData := fd \<rparr>, s)))
       = navigated pg"
  by (simp add: ConfigureApp_handleSubmit_def appConfigs_def)

text \<open>
  Claim C8. When a field that the selected platform's variant requires is empty (or missing),
  submitting \<open>ConfigurationForm\<close> changes nothing at all: the session, \<open>localStorage\<close>, the
  cookies and the log are as before. Submitting the page \<open>ConfigureApp\<close> in that case leaves
  the whole browser state as it was too, and asks for no navigation.
\<close>

theorem submit_incomplete_is_noop:
  assumes "f \<in> set (requiredFields tool)" and "fieldEmpty fd f"
  shows "ConfigurationForm_handleSubmit env tool fd s = s
       \<and> snd (ConfigureApp_handleSubmit env tool (pg\<lparr> formData := fd \<rparr>, s)) = s
       \<and> navigated (fst (ConfigureApp_handleSubmit env tool (pg\<lparr> formData := fd \<rparr>, s)))
           = navigated pg"
proof -
  note cf = ConfigurationForm_trello_incomplete ConfigurationForm_linear_incomplete
    ConfigurationForm_asana_incomplete
  note ca = ConfigureApp_trello ConfigureApp_linear_incomplete ConfigureApp_asana_incomplete
  from requiredFields_cases [OF assms(1)] show ?thesis
  proof (elim disjE conjE)
    assume "tool = ''trello''" "f = ''apiKey''"
    with assms(2) show ?thesis by (simp only: cf ca simp_thms)
  next
    assume "tool = ''trello''" "f = ''token''"
    with assms(2) show ?thesis by (simp only: cf ca simp_thms)
  next
    assume "tool = ''trello''" "f = ''boardId''"
    with assms(2) show ?thesis by (simp only: cf ca simp_thms)
  next
    assume "tool = ''linear''" "f = ''apiKey''"
    with assms(2) show ?thesis by (simp only: cf ca simp_thms)
  next
    assume "tool = ''linear''" "f = ''workspaceId''"
    with assms(2) show ?thesis by (simp only: cf ca simp_thms)
  next
    assume "tool = ''asana''" "f = ''personalAccessToken''"
    with assms(2) show ?thesis by (simp only: cf ca simp_thms)
  next
    assume "tool = ''asana''" "f = ''projectId''"
    with assms(2) show ?thesis by (simp only: cf ca simp_thms)
  qed
qed

theorem submit_incomplete_is_noop_witness:
  "''workspaceId'' \<in> set (requiredFields ''linear'')
   \<and> fieldEmpty [(''apiKey'', ''k1''), (''workspaceId'', '''')] ''workspaceId''
   \<and> ConfigurationForm_handleSubmit sample_env ''linear''
        [(''apiKey'', ''k1''), (''workspaceId'', '''')] sample_configured = sample_configured
   \<and> ConfigurationForm_handleSubmit sample_env ''linear''
        [(''apiKey'', ''k1''), (''workspaceId'', ''w1'')] sample_configured \<noteq> sample_configured"
proof -
  have a: "''workspaceId'' \<in> set (requiredFields ''linear'')"
    by (simp add: requiredFields_def)
  have b: "fieldEmpty [(''apiKey'', ''k1''), (''workspaceId'', '''')] ''workspaceId''"
    by (simp add: fieldEmpty_def)
  have "localStorage (ConfigurationForm_handleSubmit sample_env ''linear''
        [(''apiKey'', ''k1''), (''workspaceId'', ''w1'')] sample_configured) ''linear_config''
          \<noteq> localStorage sample_configured ''linear_config''"
    by (simp add: ConfigurationForm_handleSubmit_def handleConfigSave_def sample_configured_def
        detection_defs sample_cookies_def initial_state_def sample_env_def)
  then have c: "ConfigurationForm_handleSubmit sample_env ''linear''
        [(''apiKey'', ''k1''), (''workspaceId'', ''w1'')] sample_configured \<noteq> sample_configured"
    by metis
  show ?thesis
    using a b c submit_incomplete_is_noop [OF a b, of sample_env sample_configured]
    by simp
qed

section \<open>Properties of recording\<close>

text \<open>
  Claim C5. While the component is not configured, a click on the record button does nothing:
  the state after the click is the state before it, so the recording status is unchanged and
  \<open>audioRecorder.current.startRecording\<close> has not been called.
\<close>

theorem click_unconfigured_is_refused:
  assumes "\<not> isConfigured s"
  shows "clickRecordButton env out s = s
       \<and> recordingStatus (clickRecordButton env out s) = recordingStatus s
       \<and> deviceAcquisitions (clickRecordButton env out s) = deviceAcquisitions s"
  using assms by (simp add: clickRecordButton_def)

theorem click_unconfigured_is_refused_witness:
  "\<not> isConfigured (initial_state Map.empty Map.empty)
   \<and> clickRecordButton sample_env sample_ok (initial_state Map.empty Map.empty)
       = initial_state Map.empty Map.empty
   \<and> deviceAcquisitions (clickRecordButton sample_env sample_ok (initial_state Map.empty Map.empty)) = 0
   \<and> deviceAcquisitions (clickRecordButton sample_env sample_ok sample_configured) = 1
   \<and> recordingStatus (clickRecordButton sample_env sample_ok sample_configured) = Recording"
proof -
  have u: "\<not> isConfigured (initial_state Map.empty Map.empty)"
    by (simp add: initial_state_def)
  have d: "deviceAcquisitions (initial_state Map.empty Map.empty) = 0"
    by (simp add: initial_state_def)
  have c: "isConfigured sample_configured \<and> recordingStatus sample_configured = Idle
           \<and> deviceAcquisitions sample_configured = 0"
    by (simp add: sample_configured_def detection_defs sample_cookies_def initial_state_def)
  have r: "deviceAcquisitions (clickRecordButton sample_env sample_ok sample_configured) = 1
         \<and> recordingStatus (clickRecordButton sample_env sample_ok sample_configured) = Recording"
    using c by (simp add: clickRecordButton_def startRecording_def sample_ok_def Let_def)
  show ?thesis
    using u d r click_unconfigured_is_refused [OF u, of sample_env sample_ok]
    by simp
qed

section \<open>Platform detection: one log entry, unparseable records skipped\<close>

lemma logs_addLog_cong:
  "logs s' = logs s \<Longrightarrow> clockReads s' = clockReads s \<Longrightarrow>
   logs (addLog env ty msg det s') = logs (addLog env ty msg det s)"
  by (simp add: logs_addLog)

lemma checkCookies_cases:
  obtains (trello) "checkCookies env s =
        addLog env Info ''Connected to Trello'' None
          (s\<lparr> selectedTool := Some ''trello'', isConfigured := True,
              platformConfig := JObj [(''apiKey'', Cookies_get s ''apiKey''),
                (''token'', Cookies_get s ''token''), (''boardId'', Cookies_get s ''boardId'')] \<rparr>)"
      "Cookies_get s ''platform'' = JStr ''trello''"
      "truthy (Cookies_get s ''apiKey'')" "truthy (Cookies_get s ''token'')"
      "truthy (Cookies_get s ''boardId'')"
    | (linear) "checkCookies env s =
        addLog env Info ''Connected to Linear'' None
          (s\<lparr> selectedTool := Some ''linear'', isConfigured := True,
              platformConfig := JObj [(''apiKey'', Cookies_get s ''apiKey''),
                (''workspaceId'', Cookies_get s ''workspaceId'')] \<rparr>)"
      "Cookies_get s ''platform'' = JStr ''linear''"
      "truthy (Cookies_get s ''apiKey'')" "truthy (Cookies_get s ''workspaceId'')"
    | (asana) "checkCookies env s =
        addLog env Info ''Connected to Asana'' None
          (s\<lparr> selectedTool := Some ''asana'', isConfigured := True,
              platformConfig := JObj [(''personalAccessToken'', Cookies_get s ''personalAccessToken''),
                (''projectId'', Cookies_get s ''projectId'')] \<rparr>)"
      "Cookies_get s ''platform'' = JStr ''asana''"
      "truthy (Cookies_get s ''personalAccessToken'')" "truthy (Cookies_get s ''projectId'')"
    | (none) "checkCookies env s = noConfigurationFound env s"
proof (cases "Cookies_get s ''platform'' = JStr ''trello''")
  case pt: True
  show thesis
  proof (cases "truthy (Cookies_get s ''apiKey'') \<and> truthy (Cookies_get s ''token'')
        \<and> truthy (Cookies_get s ''boardId'')")
    case t: True
    have "checkCookies env s =
        addLog env Info ''Connected to Trello'' None
          (s\<lparr> selectedTool := Some ''trello'', isConfigured := True,
              platformConfig := JObj [(''apiKey'', Cookies_get s ''apiKey''),
                (''token'', Cookies_get s ''token''), (''boardId'', Cookies_get s ''boardId'')] \<rparr>)"
      using pt t by (simp add: checkCookies_def Let_def)
    then show thesis using pt t by (intro trello) simp_all
  next
    case False
    have "checkCookies env s = noConfigurationFound env s"
      using pt False by (auto simp: checkCookies_def Let_def)
    then show thesis by (rule none)
  qed
next
  case nt: False
  show thesis
  proof (cases "Cookies_get s ''platform'' = JStr ''linear''")
    case pl: True
    show thesis
    proof (cases "truthy (Cookies_get s ''apiKey'') \<and> truthy (Cookies_get s ''workspaceId'')")
      case t: True
      have "checkCookies env s =
        addLog env Info ''Connected to Linear'' None
          (s\<lparr> selectedTool := Some ''linear'', isConfigured := True,
              platformConfig := JObj [(''apiKey'', Cookies_get s ''apiKey''),
                (''workspaceId'', Cookies_get s ''workspaceId'')] \<rparr>)"
        using pl t by (simp add: checkCookies_def Let_def)
      then show thesis using pl t by (intro linear) simp_all
    next
      case False
      have "checkCookies env s = noConfigurationFound env s"
        using pl False by (auto simp: checkCookies_def Let_def)
      then show thesis by (rule none)
    qed
  next
    case nl: False
    show thesis
    proof (cases "Cookies_get s ''platform'' = JStr ''asana''")
      case pa: True
      show thesis
      proof (cases "truthy (Cookies_get s ''personalAccessToken'')
            \<and> truthy (Cookies_get s ''projectId'')")
        case t: True
        have "checkCookies env s =
          addLog env Info ''Connected to Asana'' None
            (s\<lparr> selectedTool := Some ''asana'', isConfigured := True,
                platformConfig := JObj [(''personalAccessToken'', Cookies_get s ''personalAccessToken''),
                  (''projectId'', Cookies_get s ''projectId'')] \<rparr>)"
          using pa t by (simp add: checkCookies_def Let_def)
        then show thesis using pa t by (intro asana) simp_all
      next
        case False
        have "checkCookies env s = noConfigurationFound env s"
          using pa False by (auto simp: checkCookies_def Let_def)
        then show thesis by (rule none)
      qed
    next
      case False
      have "checkCookies env s = noConfigurationFound env s"
        using nt nl False by (simp add: checkCookies_def Let_def)
      then show thesis by (rule none)
    qed
  qed
qed

lemma checkAsanaStorage_cases:
  obtains (parsed) raw cfg where "localStorage s ''asana_config'' = Some raw" "raw \<noteq> []"
      "JSON_parse env raw = Some cfg"
      "checkAsanaStorage env s =
         addLog env Info ''Connected to Asana'' None
           (s\<lparr> selectedTool := Some ''asana'', platformConfig := cfg, isConfigured := True \<rparr>)"
    | (failed) raw where "localStorage s ''asana_config'' = Some raw" "raw \<noteq> []"
      "JSON_parse env raw = None"
      "checkAsanaStorage env s =
         checkCookies env (s\<lparr> console := console s @ [''Error parsing Asana config:''] \<rparr>)"
    | (absent) "localStorage s ''asana_config'' = None \<or> localStorage s ''asana_config'' = Some []"
      "checkAsanaStorage env s = checkCookies env s"
proof (cases "localStorage s ''asana_config''")
  case None
  then have "checkAsanaStorage env s = checkCookies env s"
    by (simp add: checkAsanaStorage_def)
  with None show thesis by (intro absent) simp_all
next
  case (Some raw)
  show thesis
  proof (cases "raw = []")
    case True
    with Some have "checkAsanaStorage env s = checkCookies env s"
      by (simp add: checkAsanaStorage_def)
    with Some True show thesis by (intro absent) simp_all
  next
    case ne: False
    show thesis
    proof (cases "JSON_parse env raw")
      case None
      with Some ne have "checkAsanaStorage env s =
          checkCookies env (s\<lparr> console := console s @ [''Error parsing Asana config:''] \<rparr>)"
        by (simp add: checkAsanaStorage_def)
      with Some ne None show thesis by (intro failed)
    next
      case p: (Some cfg)
      with \<open>localStorage s ''asana_config'' = Some raw\<close> ne
      have "checkAsanaStorage env s =
         addLog env Info ''Connected to Asana'' None
           (s\<lparr> selectedTool := Some ''asana'', platformConfig := cfg, isConfigured := True \<rparr>)"
        by (simp add: checkAsanaStorage_def)
      with \<open>localStorage s ''asana_config'' = Some raw\<close> ne p show thesis by (intro parsed)
    qed
  qed
qed

lemma checkLinearStorage_cases:
  obtains (parsed) raw cfg where "localStorage s ''linear_config'' = Some raw" "raw \<noteq> []"
      "JSON_parse env raw = Some cfg"
      "checkLinearStorage env s =
         addLog env Info ''Connected to Linear'' None
           (s\<lparr> selectedTool := Some ''linear'', platformConfig := cfg, isConfigured := True \<rparr>)"
    | (failed) raw where "localStorage s ''linear_config'' = Some raw" "raw \<noteq> []"
      "JSON_parse env raw = None"
      "checkLinearStorage env s =
         checkAsanaStorage env (s\<lparr> console := console s @ [''Error parsing Linear config:''] \<rparr>)"
    | (absent) "localStorage s ''linear_config'' = None \<or> localStorage s ''linear_config'' = Some []"
      "checkLinearStorage env s = checkAsanaStorage env s"
proof (cases "localStorage s ''linear_config''")
  case None
  then have "checkLinearStorage env s = checkAsanaStorage env s"
    by (simp add: checkLinearStorage_def)
  with None show thesis by (intro absent) simp_all
next
  case (Some raw)
  show thesis
  proof (cases "raw = []")
    case True
    with Some have "checkLinearStorage env s = checkAsanaStorage env s"
      by (simp add: checkLinearStorage_def)
    with Some True show thesis by (intro absent) simp_all
  next
    case ne: False
    show thesis
    proof (cases "JSON_parse env raw")
      case None
      with Some ne have "checkLinearStorage env s =
          checkAsanaStorage env (s\<lparr> console := console s @ [''Error parsing Linear config:''] \<rparr>)"
        by (simp add: checkLinearStorage_def)
      with Some ne None show thesis by (intro failed)
    next
      case p: (Some cfg)
      with \<open>localStorage s ''linear_config'' = Some raw\<close> ne
      have "checkLinearStorage env s =
         addLog env Info ''Connected to Linear'' None
           (s\<lparr> selectedTool := Some ''linear'', platformConfig := cfg, isConfigured := True \<rparr>)"
        by (simp add: checkLinearStorage_def)
      with \<open>localStorage s ''linear_config'' = Some raw\<close> ne p show thesis by (intro parsed)
    qed
  qed
qed

lemma console_addLog [simp]: "console (addLog env ty msg det s) = console s"
  and showConfigForm_addLog [simp]: "showConfigForm (addLog env ty msg det s) = showConfigForm s"
  by (simp_all add: addLog_def Let_def)

lemma resolved_addLog_cong:
  "resolved s' = resolved s \<Longrightarrow> clockReads s' = clockReads s \<Longrightarrow>
   resolved (addLog env ty msg det s') = resolved (addLog env ty msg det s)"
  by (simp add: resolved_def logs_addLog)

lemma resolved_update [simp]:
  "resolved (s\<lparr> console := c \<rparr>) = resolved s"
  "resolved (s\<lparr> localStorage := l \<rparr>) = resolved s"
  by (simp_all add: resolved_def)

lemma Cookies_get_update [simp]:
  "Cookies_get (s\<lparr> console := c \<rparr>) k = Cookies_get s k"
  "Cookies_get (s\<lparr> localStorage := l \<rparr>) k = Cookies_get s k"
  by (simp_all add: Cookies_get_def)

lemma checkCookies_same_branch:
  obtains (differ) "cookies s' \<noteq> cookies s"
    | (trello) "checkCookies env s =
        addLog env Info ''Connected to Trello'' None
          (s\<lparr> selectedTool := Some ''trello'', isConfigured := True,
              platformConfig := JObj [(''apiKey'', Cookies_get s ''apiKey''), (''token'', Cookies_get s ''token''), (''boardId'', Cookies_get s ''boardId'')] \<rparr>)"
      "checkCookies env s' =
        addLog env Info ''Connected to Trello'' None
          (s'\<lparr> selectedTool := Some ''trello'', isConfigured := True,
              platformConfig := JObj [(''apiKey'', Cookies_get s ''apiKey''), (''token'', Cookies_get s ''token''), (''boardId'', Cookies_get s ''boardId'')] \<rparr>)"
    | (linear) "checkCookies env s =
        addLog env Info ''Connected to Linear'' None
          (s\<lparr> selectedTool := Some ''linear'', isConfigured := True,
              platformConfig := JObj [(''apiKey'', Cookies_get s ''apiKey''), (''workspaceId'', Cookies_get s ''workspaceId'')] \<rparr>)"
      "checkCookies env s' =
        addLog env Info ''Connected to Linear'' None
          (s'\<lparr> selectedTool := Some ''linear'', isConfigured := True,
              platformConfig := JObj [(''apiKey'', Cookies_get s ''apiKey''), (''workspaceId'', Cookies_get s ''workspaceId'')] \<rparr>)"
    | (asana) "checkCookies env s =
        addLog env Info ''Connected to Asana'' None
          (s\<lparr> selectedTool := Some ''asana'', isConfigured := True,
              platformConfig := JObj [(''personalAccessToken'', Cookies_get s ''personalAccessToken''), (''projectId'', Cookies_get s ''projectId'')] \<rparr>)"
      "checkCookies env s' =
        addLog env Info ''Connected to Asana'' None
          (s'\<lparr> selectedTool := Some ''asana'', isConfigured := True,
              platformConfig := JObj [(''personalAccessToken'', Cookies_get s ''personalAccessToken''), (''projectId'', Cookies_get s ''projectId'')] \<rparr>)"
    | (none) "checkCookies env s = noConfigurationFound env s"
      "checkCookies env s' = noConfigurationFound env s'"
proof (cases "cookies s' = cookies s")
  case False
  then show thesis by (rule differ)
next
  case same: True
  have g: "Cookies_get s' k = Cookies_get s k" for k
    by (simp add: Cookies_get_def same)
  show thesis
  proof (cases "Cookies_get s ''platform'' = JStr ''trello''")
    case p0: True
    show thesis
    proof (cases "truthy (Cookies_get s ''apiKey'') \<and> truthy (Cookies_get s ''token'') \<and> truthy (Cookies_get s ''boardId'')")
      case t: True
      have "checkCookies env s =
          addLog env Info ''Connected to Trello'' None
          (s\<lparr> selectedTool := Some ''trello'', isConfigured := True,
              platformConfig := JObj [(''apiKey'', Cookies_get s ''apiKey''), (''token'', Cookies_get s ''token''), (''boardId'', Cookies_get s ''boardId'')] \<rparr>)"
        using p0 t by (simp add: checkCookies_def Let_def)
      moreover have "checkCookies env s' =
          addLog env Info ''Connected to Trello'' None
          (s'\<lparr> selectedTool := Some ''trello'', isConfigured := True,
              platformConfig := JObj [(''apiKey'', Cookies_get s ''apiKey''), (''token'', Cookies_get s ''token''), (''boardId'', Cookies_get s ''boardId'')] \<rparr>)"
        using p0 t by (simp add: checkCookies_def Let_def g)
      ultimately show thesis by (rule trello)
    next
      case False
      have "checkCookies env s = noConfigurationFound env s"
        using p0 False by (auto simp: checkCookies_def Let_def)
      moreover have "checkCookies env s' = noConfigurationFound env s'"
        using p0 False by (auto simp: checkCookies_def Let_def g)
      ultimately show thesis by (rule none)
    qed
  next
    case n0: False
    show thesis
    proof (cases "Cookies_get s ''platform'' = JStr ''linear''")
      case p1: True
      show thesis
      proof (cases "truthy (Cookies_get s ''apiKey'') \<and> truthy (Cookies_get s ''workspaceId'')")
        case t: True
        have "checkCookies env s =
            addLog env Info ''Connected to Linear'' None
          (s\<lparr> selectedTool := Some ''linear'', isConfigured := True,
              platformConfig := JObj [(''apiKey'', Cookies_get s ''apiKey''), (''workspaceId'', Cookies_get s ''workspaceId'')] \<rparr>)"
          using p1 t by (simp add: checkCookies_def Let_def)
        moreover have "checkCookies env s' =
            addLog env Info ''Connected to Linear'' None
          (s'\<lparr> selectedTool := Some ''linear'', isConfigured := True,
              platformConfig := JObj [(''apiKey'', Cookies_get s ''apiKey''), (''workspaceId'', Cookies_get s ''workspaceId'')] \<rparr>)"
          using p1 t by (simp add: checkCookies_def Let_def g)
        ultimately show thesis by (rule linear)
      next
        case False
        have "checkCookies env s = noConfigurationFound env s"
          using p1 False by (auto simp: checkCookies_def Let_def)
        moreover have "checkCookies env s' = noConfigurationFound env s'"
          using p1 False by (auto simp: checkCookies_def Let_def g)
        ultimately show thesis by (rule none)
      qed
    next
      case n1: False
      show thesis
      proof (cases "Cookies_get s ''platform'' = JStr ''asana''")
        case p2: True
        show thesis
        proof (cases "truthy (Cookies_get s ''personalAccessToken'') \<and> truthy (Cookies_get s ''projectId'')")
          case t: True
          have "checkCookies env s =
              addLog env Info ''Connected to Asana'' None
          (s\<lparr> selectedTool := Some ''asana'', isConfigured := True,
              platformConfig := JObj [(''personalAccessToken'', Cookies_get s ''personalAccessToken''), (''projectId'', Cookies_get s ''projectId'')] \<rparr>)"
            using p2 t by (simp add: checkCookies_def Let_def)
          moreover have "checkCookies env s' =
              addLog env Info ''Connected to Asana'' None
          (s'\<lparr> selectedTool := Some ''asana'', isConfigured := True,
              platformConfig := JObj [(''personalAccessToken'', Cookies_get s ''personalAccessToken''), (''projectId'', Cookies_get s ''projectId'')] \<rparr>)"
            using p2 t by (simp add: checkCookies_def Let_def g)
          ultimately show thesis by (rule asana)
        next
          case False
          have "checkCookies env s = noConfigurationFound env s"
            using p2 False by (auto simp: checkCookies_def Let_def)
          moreover have "checkCookies env s' = noConfigurationFound env s'"
            using p2 False by (auto simp: checkCookies_def Let_def g)
          ultimately show thesis by (rule none)
        qed
      next
        case n2: False
        show thesis
        proof -
          have "checkCookies env s = noConfigurationFound env s"
            using n0 n1 n2 by (simp add: checkCookies_def Let_def)
          moreover have "checkCookies env s' = noConfigurationFound env s'"
            using n0 n1 n2 by (simp add: checkCookies_def Let_def g)
          ultimately show thesis by (rule none)
        qed
      qed
    qed
  qed
qed

lemma console_checkCookies: "console (checkCookies env s) = console s"
  by (cases rule: checkCookies_cases [of env s]) (simp_all add: noConfigurationFound_def)

lemma resolved_same_fields:
  assumes "resolved s' = resolved s"
  shows "selectedTool s' = selectedTool s" "platformConfig s' = platformConfig s"
    "isConfigured s' = isConfigured s" "showConfigForm s' = showConfigForm s" "logs s' = logs s"
  using assms by (simp_all add: resolved_def)

lemma resolved_checkCookies_cong:
  assumes same: "cookies s' = cookies s" and r: "resolved s' = resolved s"
    and c: "clockReads s' = clockReads s"
  shows "resolved (checkCookies env s') = resolved (checkCookies env s)"
proof (cases rule: checkCookies_same_branch [where s' = s' and s = s and env = env])
  case differ
  with same show ?thesis by simp
next
  case trello
  show ?thesis unfolding trello
    by (rule resolved_addLog_cong) (simp_all add: resolved_def resolved_same_fields [OF r] c)
next
  case linear
  show ?thesis unfolding linear
    by (rule resolved_addLog_cong) (simp_all add: resolved_def resolved_same_fields [OF r] c)
next
  case asana
  show ?thesis unfolding asana
    by (rule resolved_addLog_cong) (simp_all add: resolved_def resolved_same_fields [OF r] c)
next
  case none
  show ?thesis unfolding none noConfigurationFound_def
    by (rule resolved_addLog_cong) (simp_all add: resolved_def resolved_same_fields [OF r] c)
qed

lemma resolved_checkAsanaStorage_cong:
  assumes l: "localStorage s' ''asana_config'' = localStorage s ''asana_config''"
    and same: "cookies s' = cookies s" and r: "resolved s' = resolved s"
    and c: "clockReads s' = clockReads s"
  shows "resolved (checkAsanaStorage env s') = resolved (checkAsanaStorage env s)"
proof (cases "localStorage s ''asana_config''")
  case None
  then show ?thesis
    using l by (simp add: checkAsanaStorage_def resolved_checkCookies_cong [OF same r c])
next
  case (Some raw)
  show ?thesis
  proof (cases "raw = []")
    case True
    with Some show ?thesis
      using l by (simp add: checkAsanaStorage_def resolved_checkCookies_cong [OF same r c])
  next
    case ne: False
    show ?thesis
    proof (cases "JSON_parse env raw")
      case None
      have "resolved (checkCookies env (s'\<lparr> console := console s' @ [''Error parsing Asana config:''] \<rparr>))
          = resolved (checkCookies env (s\<lparr> console := console s @ [''Error parsing Asana config:''] \<rparr>))"
        by (rule resolved_checkCookies_cong) (simp_all add: same r c)
      with Some ne None show ?thesis
        using l by (simp add: checkAsanaStorage_def)
    next
      case (Some cfg)
      have "resolved (addLog env Info ''Connected to Asana'' None
                (s'\<lparr> selectedTool := Some ''asana'', platformConfig := cfg, isConfigured := True \<rparr>))
          = resolved (addLog env Info ''Connected to Asana'' None
                (s\<lparr> selectedTool := Some ''asana'', platformConfig := cfg, isConfigured := True \<rparr>))"
        by (rule resolved_addLog_cong) (simp_all add: resolved_def resolved_same_fields [OF r] c)
      with \<open>localStorage s ''asana_config'' = Some raw\<close> ne Some show ?thesis
        using l by (simp add: checkAsanaStorage_def)
    qed
  qed
qed

lemma names_outcome_console:
  "names_outcome env (s\<lparr> console := c \<rparr>) s' \<Longrightarrow> names_outcome env s s'"
  by (simp add: names_outcome_def logs_addLog)

lemma names_outcome_checkCookies: "names_outcome env s (checkCookies env s)"
proof (cases rule: checkCookies_cases [of env s])
  case trello
  have "logs (checkCookies env s) = logs (addLog env Info ''Connected to Trello'' None s)"
    unfolding trello(1) by (rule logs_addLog_cong) simp_all
  then show ?thesis by (simp add: names_outcome_def trello(1))
next
  case linear
  have "logs (checkCookies env s) = logs (addLog env Info ''Connected to Linear'' None s)"
    unfolding linear(1) by (rule logs_addLog_cong) simp_all
  then show ?thesis by (simp add: names_outcome_def linear(1))
next
  case asana
  have "logs (checkCookies env s) = logs (addLog env Info ''Connected to Asana'' None s)"
    unfolding asana(1) by (rule logs_addLog_cong) simp_all
  then show ?thesis by (simp add: names_outcome_def asana(1))
next
  case none
  have "logs (checkCookies env s)
      = logs (addLog env Info ''Voice Manager initialized - Please configure your platform'' None s)"
    unfolding none noConfigurationFound_def by (rule logs_addLog_cong) simp_all
  then show ?thesis by (simp add: names_outcome_def none noConfigurationFound_def)
qed

lemma names_outcome_checkAsanaStorage: "names_outcome env s (checkAsanaStorage env s)"
proof (cases rule: checkAsanaStorage_cases [where env = env and s = s])
  case (parsed raw cfg)
  have "logs (checkAsanaStorage env s) = logs (addLog env Info ''Connected to Asana'' None s)"
    unfolding parsed(4) by (rule logs_addLog_cong) simp_all
  then show ?thesis by (simp add: names_outcome_def parsed(4))
next
  case (failed raw)
  show ?thesis unfolding failed(4)
    by (rule names_outcome_console) (rule names_outcome_checkCookies)
next
  case absent
  show ?thesis unfolding absent(2) by (rule names_outcome_checkCookies)
qed

lemma names_outcome_checkLinearStorage: "names_outcome env s (checkLinearStorage env s)"
proof (cases rule: checkLinearStorage_cases [where env = env and s = s])
  case (parsed raw cfg)
  have "logs (checkLinearStorage env s) = logs (addLog env Info ''Connected to Linear'' None s)"
    unfolding parsed(4) by (rule logs_addLog_cong) simp_all
  then show ?thesis by (simp add: names_outcome_def parsed(4))
next
  case (failed raw)
  show ?thesis unfolding failed(4)
    by (rule names_outcome_console) (rule names_outcome_checkAsanaStorage)
next
  case absent
  show ?thesis unfolding absent(2) by (rule names_outcome_checkAsanaStorage)
qed

lemma clockReads_checkCookies: "clockReads (checkCookies env s) = clockReads s + 1"
  by (cases rule: checkCookies_cases [of env s]) (simp_all add: noConfigurationFound_def)

lemma clockReads_checkAsanaStorage: "clockReads (checkAsanaStorage env s) = clockReads s + 1"
  by (cases rule: checkAsanaStorage_cases [where env = env and s = s])
    (simp_all add: clockReads_checkCookies)

lemma clockReads_checkLinearStorage: "clockReads (checkLinearStorage env s) = clockReads s + 1"
  by (cases rule: checkLinearStorage_cases [where env = env and s = s])
    (simp_all add: clockReads_checkAsanaStorage)

lemma platformDetection_without_payload:
  "navPlatform st = None \<Longrightarrow> platformDetection env st s = checkLinearStorage env s"
  by (simp add: platformDetection_def split: option.splits)

lemma platformDetection_with_payload:
  assumes "navPlatform st = Some p"
  shows "\<exists>n. st = Some n \<and>
    platformDetection env st s =
       addLog env Info (''Connected to '' @ capitalize env p) None
         (if truthy (nav_config n)
          then s\<lparr> selectedTool := Some p, platformConfig := nav_config n, isConfigured := True \<rparr>
          else s\<lparr> selectedTool := Some p \<rparr>)"
proof -
  from assms obtain n where n: "st = Some n"
    by (cases st) (auto simp: navPlatform_def)
  with assms show ?thesis
    by (simp add: platformDetection_def)
qed

lemma platformDetection_entry:
  "clockReads (platformDetection env st s) = clockReads s + 1"
  "case navPlatform st of
     Some p \<Rightarrow>
       logs (platformDetection env st s)
         = logs (addLog env Info (''Connected to '' @ capitalize env p) None s)
       \<and> selectedTool (platformDetection env st s) = Some p
   | None \<Rightarrow> names_outcome env s (platformDetection env st s)"
proof -
  show "clockReads (platformDetection env st s) = clockReads s + 1"
  proof (cases "navPlatform st")
    case None
    then show ?thesis
      by (simp add: platformDetection_without_payload clockReads_checkLinearStorage)
  next
    case (Some p)
    from platformDetection_with_payload [OF Some, of env s] show ?thesis
      by (auto simp: Some logs_addLog)
  qed
  show "case navPlatform st of
     Some p \<Rightarrow>
       logs (platformDetection env st s)
         = logs (addLog env Info (''Connected to '' @ capitalize env p) None s)
       \<and> selectedTool (platformDetection env st s) = Some p
   | None \<Rightarrow> names_outcome env s (platformDetection env st s)"
  proof (cases "navPlatform st")
    case None
    then show ?thesis
      by (simp add: platformDetection_without_payload names_outcome_checkLinearStorage)
  next
    case (Some p)
    from platformDetection_with_payload [OF Some, of env s] show ?thesis
      by (auto simp: Some logs_addLog)
  qed
qed

lemma console_checkAsanaStorage:
  "console (checkAsanaStorage env s) = console s @
     (if unparseable env (localStorage s) ''asana_config''
      then [''Error parsing Asana config:''] else [])"
  by (cases rule: checkAsanaStorage_cases [where env = env and s = s])
    (auto simp: unparseable_def console_checkCookies)

lemma console_checkLinearStorage:
  "console (checkLinearStorage env s) = console s @
     (if unparseable env (localStorage s) ''linear_config''
      then [''Error parsing Linear config:''] else []) @
     (if \<not> usable env (localStorage s) ''linear_config''
         \<and> unparseable env (localStorage s) ''asana_config''
      then [''Error parsing Asana config:''] else [])"
proof (cases rule: checkLinearStorage_cases [where env = env and s = s])
  case (parsed raw cfg)
  then show ?thesis by (simp add: unparseable_def usable_def)
next
  case (failed raw)
  then show ?thesis by (simp add: unparseable_def usable_def console_checkAsanaStorage)
next
  case absent
  then show ?thesis by (auto simp: unparseable_def usable_def console_checkAsanaStorage)
qed

lemma console_platformDetection:
  "console (platformDetection env st s) = console s @
     (if navPlatform st = None \<and> unparseable env (localStorage s) ''linear_config''
      then [''Error parsing Linear config:''] else []) @
     (if navPlatform st = None \<and> \<not> usable env (localStorage s) ''linear_config''
         \<and> unparseable env (localStorage s) ''asana_config''
      then [''Error parsing Asana config:''] else [])"
proof (cases "navPlatform st")
  case None
  then show ?thesis
    by (simp add: platformDetection_without_payload console_checkLinearStorage)
next
  case (Some p)
  from platformDetection_with_payload [OF Some, of env s] show ?thesis
    by (auto simp: Some logs_addLog)
qed

lemma resolved_payload_cong:
  assumes "navPlatform st = Some p" and r: "resolved s' = resolved s"
    and c: "clockReads s' = clockReads s"
  shows "resolved (platformDetection env st s') = resolved (platformDetection env st s)"
proof -
  from assms(1) obtain n where n: "st = Some n"
    by (cases st) (auto simp: navPlatform_def)
  have e: "platformDetection env st t =
       addLog env Info (''Connected to '' @ capitalize env p) None
         (if truthy (nav_config n)
          then t\<lparr> selectedTool := Some p, platformConfig := nav_config n, isConfigured := True \<rparr>
          else t\<lparr> selectedTool := Some p \<rparr>)" for t
    using assms(1) by (simp add: platformDetection_def n)
  show ?thesis
    unfolding e
    by (rule resolved_addLog_cong) (simp_all add: resolved_def resolved_same_fields [OF r] c)
qed

lemma resolved_checkAsanaStorage_unread:
  assumes u: "localStorage s ''asana_config'' = Some raw" "raw = [] \<or> JSON_parse env raw = None"
    and a: "localStorage s' ''asana_config'' = None"
    and same: "cookies s' = cookies s" and r: "resolved s' = resolved s"
    and c: "clockReads s' = clockReads s"
  shows "resolved (checkAsanaStorage env s) = resolved (checkAsanaStorage env s')"
proof -
  have s': "checkAsanaStorage env s' = checkCookies env s'"
    using a by (simp add: checkAsanaStorage_def)
  show ?thesis
  proof (cases "raw = []")
    case True
    with u(1) have "checkAsanaStorage env s = checkCookies env s"
      by (simp add: checkAsanaStorage_def)
    then show ?thesis
      unfolding s' using resolved_checkCookies_cong [OF same r c, of env] by simp
  next
    case False
    with u have "checkAsanaStorage env s
        = checkCookies env (s\<lparr> console := console s @ [''Error parsing Asana config:''] \<rparr>)"
      by (simp add: checkAsanaStorage_def)
    moreover have "resolved (checkCookies env s')
        = resolved (checkCookies env (s\<lparr> console := console s @ [''Error parsing Asana config:''] \<rparr>))"
      by (rule resolved_checkCookies_cong) (simp_all add: same r c)
    ultimately show ?thesis
      unfolding s' by simp
  qed
qed

lemma linear_unread_as_absent:
  assumes u: "localStorage s ''linear_config'' = Some raw" "raw = [] \<or> JSON_parse env raw = None"
  shows "resolved (platformDetection env st s)
           = resolved (platformDetection env st
               (s\<lparr> localStorage := (localStorage s)(''linear_config'' := None) \<rparr>))"
proof (cases "navPlatform st")
  case (Some p)
  show ?thesis
    by (rule resolved_payload_cong [OF Some, symmetric]) simp_all
next
  case None
  have a: "checkLinearStorage env (s\<lparr> localStorage := (localStorage s)(''linear_config'' := None) \<rparr>)
      = checkAsanaStorage env (s\<lparr> localStorage := (localStorage s)(''linear_config'' := None) \<rparr>)"
    by (simp add: checkLinearStorage_def)
  show ?thesis
  proof (cases "raw = []")
    case True
    with u(1) have f: "checkLinearStorage env s = checkAsanaStorage env s"
      by (simp add: checkLinearStorage_def)
    show ?thesis
      unfolding platformDetection_without_payload [OF None] f a
      by (rule resolved_checkAsanaStorage_cong [symmetric]) simp_all
  next
    case False
    with u have f: "checkLinearStorage env s
        = checkAsanaStorage env (s\<lparr> console := console s @ [''Error parsing Linear config:''] \<rparr>)"
      by (simp add: checkLinearStorage_def)
    show ?thesis
      unfolding platformDetection_without_payload [OF None] f a
      by (rule resolved_checkAsanaStorage_cong) simp_all
  qed
qed

lemma asana_unread_as_absent:
  assumes u: "localStorage s ''asana_config'' = Some raw" "raw = [] \<or> JSON_parse env raw = None"
  shows "resolved (platformDetection env st s)
           = resolved (platformDetection env st
               (s\<lparr> localStorage := (localStorage s)(''asana_config'' := None) \<rparr>))"
proof (cases "navPlatform st")
  case (Some p)
  show ?thesis
    by (rule resolved_payload_cong [OF Some, symmetric]) simp_all
next
  case None
  let ?t = "s\<lparr> localStorage := (localStorage s)(''asana_config'' := None) \<rparr>"
  have l: "localStorage ?t ''linear_config'' = localStorage s ''linear_config''"
    by simp
  show ?thesis
  proof (cases rule: checkLinearStorage_cases [where env = env and s = s])
    case (parsed raw' cfg)
    have t: "checkLinearStorage env ?t =
         addLog env Info ''Connected to Linear'' None
           (?t\<lparr> selectedTool := Some ''linear'', platformConfig := cfg, isConfigured := True \<rparr>)"
      using parsed(1-3) by (simp add: checkLinearStorage_def)
    show ?thesis
      unfolding platformDetection_without_payload [OF None] parsed(4) t
      by (rule resolved_addLog_cong) (simp_all add: resolved_def)
  next
    case (failed raw')
    have t: "checkLinearStorage env ?t
        = checkAsanaStorage env (?t\<lparr> console := console ?t @ [''Error parsing Linear config:''] \<rparr>)"
      using failed(1-3) by (simp add: checkLinearStorage_def)
    show ?thesis
      unfolding platformDetection_without_payload [OF None] failed(4) t
      by (rule resolved_checkAsanaStorage_unread [where raw = raw]) (simp_all add: u)
  next
    case absent
    have t: "checkLinearStorage env ?t = checkAsanaStorage env ?t"
      using absent(1) by (auto simp: checkLinearStorage_def)
    show ?thesis
      unfolding platformDetection_without_payload [OF None] absent(2) t
      by (rule resolved_checkAsanaStorage_unread [where raw = raw]) (simp_all add: u)
  qed
qed

text \<open>
  Claim C7, as the code has it. Platform detection, run in any state with any navigation
  payload, storage and cookies, adds exactly one log entry, of type \<open>info\<close>, and the entry names
  the outcome: the payload's platform, now selected; or, with no platform in the payload, the
  tool found in storage or cookies, now selected and configured; or that nothing was found, the
  form asked for and the session left as it was. A stored record that is empty or does not
  parse is treated as absent: session, form flag and log come out as they do with that record
  removed, for the Linear record and for the Asana record alike. No log entry records the
  failure. It is reported on the console only, for a record that was read and rejected: the
  Linear report, then the Asana report when the Linear record gave no config; an empty record
  is skipped with no report.
\<close>

theorem detection_logs_once_and_skips_unreadable:
  "clockReads (platformDetection env st s) = clockReads s + 1
   \<and> (case navPlatform st of
         Some p \<Rightarrow>
           logs (platformDetection env st s)
             = logs (addLog env Info (''Connected to '' @ capitalize env p) None s)
           \<and> selectedTool (platformDetection env st s) = Some p
       | None \<Rightarrow>
           (logs (platformDetection env st s) = logs (addLog env Info ''Connected to Linear'' None s)
              \<and> selectedTool (platformDetection env st s) = Some ''linear''
              \<and> isConfigured (platformDetection env st s))
         \<or> (logs (platformDetection env st s) = logs (addLog env Info ''Connected to Asana'' None s)
              \<and> selectedTool (platformDetection env st s) = Some ''asana''
              \<and> isConfigured (platformDetection env st s))
         \<or> (logs (platformDetection env st s) = logs (addLog env Info ''Connected to Trello'' None s)
              \<and> selectedTool (platformDetection env st s) = Some ''trello''
              \<and> isConfigured (platformDetection env st s))
         \<or> (logs (platformDetection env st s)
                = logs (addLog env Info
                     ''Voice Manager initialized - Please configure your platform'' None s)
              \<and> showConfigForm (platformDetection env st s)
              \<and> selectedTool (platformDetection env st s) = selectedTool s
              \<and> platformConfig (platformDetection env st s) = platformConfig s
              \<and> isConfigured (platformDetection env st s) = isConfigured s))
   \<and> (localStorage s ''linear_config'' = Some rawL \<and> (rawL = [] \<or> JSON_parse env rawL = None)
        \<longrightarrow> resolved (platformDetection env st s)
              = resolved (platformDetection env st
                  (s\<lparr> localStorage := (localStorage s)(''linear_config'' := None) \<rparr>)))
   \<and> (localStorage s ''asana_config'' = Some rawA \<and> (rawA = [] \<or> JSON_parse env rawA = None)
        \<longrightarrow> resolved (platformDetection env st s)
              = resolved (platformDetection env st
                  (s\<lparr> localStorage := (localStorage s)(''asana_config'' := None) \<rparr>)))
   \<and> console (platformDetection env st s) = console s @
        (if navPlatform st = None \<and> unparseable env (localStorage s) ''linear_config''
         then [''Error parsing Linear config:''] else []) @
        (if navPlatform st = None \<and> \<not> usable env (localStorage s) ''linear_config''
            \<and> unparseable env (localStorage s) ''asana_config''
         then [''Error parsing Asana config:''] else [])"
proof (intro conjI impI)
  show "clockReads (platformDetection env st s) = clockReads s + 1"
    by (rule platformDetection_entry)
  show "case navPlatform st of
         Some p \<Rightarrow>
           logs (platformDetection env st s)
             = logs (addLog env Info (''Connected to '' @ capitalize env p) None s)
           \<and> selectedTool (platformDetection env st s) = Some p
       | None \<Rightarrow>
           (logs (platformDetection env st s) = logs (addLog env Info ''Connected to Linear'' None s)
              \<and> selectedTool (platformDetection env st s) = Some ''linear''
              \<and> isConfigured (platformDetection env st s))
         \<or> (logs (platformDetection env st s) = logs (addLog env Info ''Connected to Asana'' None s)
              \<and> selectedTool (platformDetection env st s) = Some ''asana''
              \<and> isConfigured (platformDetection env st s))
         \<or> (logs (platformDetection env st s) = logs (addLog env Info ''Connected to Trello'' None s)
              \<and> selectedTool (platformDetection env st s) = Some ''trello''
              \<and> isConfigured (platformDetection env st s))
         \<or> (logs (platformDetection env st s)
                = logs (addLog env Info
                     ''Voice Manager initialized - Please configure your platform'' None s)
              \<and> showConfigForm (platformDetection env st s)
              \<and> selectedTool (platformDetection env st s) = selectedTool s
              \<and> platformConfig (platformDetection env st s) = platformConfig s
              \<and> isConfigured (platformDetection env st s) = isConfigured s)"
    using platformDetection_entry(2) [where st = st and env = env and s = s]
    unfolding names_outcome_def .
  show "console (platformDetection env st s) = console s @
        (if navPlatform st = None \<and> unparseable env (localStorage s) ''linear_config''
         then [''Error parsing Linear config:''] else []) @
        (if navPlatform st = None \<and> \<not> usable env (localStorage s) ''linear_config''
            \<and> unparseable env (localStorage s) ''asana_config''
         then [''Error parsing Asana config:''] else [])"
    by (rule console_platformDetection)
next
  assume "localStorage s ''linear_config'' = Some rawL \<and> (rawL = [] \<or> JSON_parse env rawL = None)"
  then show "resolved (platformDetection env st s)
      = resolved (platformDetection env st
          (s\<lparr> localStorage := (localStorage s)(''linear_config'' := None) \<rparr>))"
    using linear_unread_as_absent by blast
next
  assume "localStorage s ''asana_config'' = Some rawA \<and> (rawA = [] \<or> JSON_parse env rawA = None)"
  then show "resolved (platformDetection env st s)
      = resolved (platformDetection env st
          (s\<lparr> localStorage := (localStorage s)(''asana_config'' := None) \<rparr>))"
    using asana_unread_as_absent by blast
qed

lemma sample_unread_detection:
  "selectedTool (platformDetection sample_env None
      (initial_state [''linear_config'' \<mapsto> ''{oops'', ''asana_config'' \<mapsto> ''''] sample_cookies))
     = Some ''trello''"
  "map type (logs (platformDetection sample_env None
      (initial_state [''linear_config'' \<mapsto> ''{oops'', ''asana_config'' \<mapsto> ''''] sample_cookies)))
     = [Info]"
  by (simp_all add: detection_defs sample_cookies_def sample_env_def initial_state_def
      sample_linear_record_def quoted_def logs_addLog updateLogs_def)

theorem detection_logs_once_and_skips_unreadable_witness:
  "localStorage (initial_state [''linear_config'' \<mapsto> ''{oops'', ''asana_config'' \<mapsto> ''''] sample_cookies)
      ''linear_config'' = Some ''{oops''
   \<and> JSON_parse sample_env ''{oops'' = None
   \<and> localStorage (initial_state [''linear_config'' \<mapsto> ''{oops'', ''asana_config'' \<mapsto> ''''] sample_cookies)
      ''asana_config'' = Some ''''
   \<and> navPlatform None = None
   \<and> resolved (platformDetection sample_env None
         (initial_state [''linear_config'' \<mapsto> ''{oops'', ''asana_config'' \<mapsto> ''''] sample_cookies))
       = resolved (platformDetection sample_env None
           ((initial_state [''linear_config'' \<mapsto> ''{oops'', ''asana_config'' \<mapsto> ''''] sample_cookies)
              \<lparr> localStorage :=
                  (localStorage (initial_state [''linear_config'' \<mapsto> ''{oops'', ''asana_config'' \<mapsto> '''']
                      sample_cookies))(''linear_config'' := None) \<rparr>))
   \<and> resolved (platformDetection sample_env None
         (initial_state [''linear_config'' \<mapsto> ''{oops'', ''asana_config'' \<mapsto> ''''] sample_cookies))
       = resolved (platformDetection sample_env None
           ((initial_state [''linear_config'' \<mapsto> ''{oops'', ''asana_config'' \<mapsto> ''''] sample_cookies)
              \<lparr> localStorage :=
                  (localStorage (initial_state [''linear_config'' \<mapsto> ''{oops'', ''asana_config'' \<mapsto> '''']
                      sample_cookies))(''asana_config'' := None) \<rparr>))
   \<and> console (platformDetection sample_env None
         (initial_state [''linear_config'' \<mapsto> ''{oops'', ''asana_config'' \<mapsto> ''''] sample_cookies))
       = [''Error parsing Linear config:'']
   \<and> selectedTool (platformDetection sample_env None
         (initial_state [''linear_config'' \<mapsto> ''{oops'', ''asana_config'' \<mapsto> ''''] sample_cookies))
       = Some ''trello''
   \<and> map type (logs (platformDetection sample_env None
         (initial_state [''linear_config'' \<mapsto> ''{oops'', ''asana_config'' \<mapsto> ''''] sample_cookies)))
       = [Info]"
proof -
  let ?s = "initial_state [''linear_config'' \<mapsto> ''{oops'', ''asana_config'' \<mapsto> ''''] sample_cookies"
  have p: "JSON_parse sample_env ''{oops'' = None"
    by (simp add: sample_env_def sample_linear_record_def quoted_def)
  have l: "localStorage ?s ''linear_config'' = Some ''{oops''"
    "localStorage ?s ''asana_config'' = Some ''''"
    by (simp_all add: initial_state_def)
  have n: "navPlatform None = None"
    by (simp add: navPlatform_def)
  have u: "unparseable sample_env (localStorage ?s) ''linear_config''"
    "\<not> unparseable sample_env (localStorage ?s) ''asana_config''"
    "\<not> usable sample_env (localStorage ?s) ''linear_config''"
    by (simp_all add: unparseable_def usable_def l p)
  have c: "console ?s = []"
    by (simp add: initial_state_def)
  note t = detection_logs_once_and_skips_unreadable
    [of sample_env None ?s "''{oops''" "''''"]
  from t l p have 1: "resolved (platformDetection sample_env None ?s)
       = resolved (platformDetection sample_env None
           (?s\<lparr> localStorage := (localStorage ?s)(''linear_config'' := None) \<rparr>))"
    by blast
  from t l have 2: "resolved (platformDetection sample_env None ?s)
       = resolved (platformDetection sample_env None
           (?s\<lparr> localStorage := (localStorage ?s)(''asana_config'' := None) \<rparr>))"
    by blast
  from t have "console (platformDetection sample_env None ?s) = console ?s @
        (if navPlatform None = None \<and> unparseable sample_env (localStorage ?s) ''linear_config''
         then [''Error parsing Linear config:''] else []) @
        (if navPlatform None = None \<and> \<not> usable sample_env (localStorage ?s) ''linear_config''
            \<and> unparseable sample_env (localStorage ?s) ''asana_config''
         then [''Error parsing Asana config:''] else [])"
    by blast
  then have 3: "console (platformDetection sample_env None ?s) = [''Error parsing Linear config:'']"
    by (simp add: n u c)
  from l p n 1 2 3 sample_unread_detection show ?thesis by blast
qed

text \<open>
  Claim C7 as the spec words it fails. A stored Linear record that is the empty text exists
  and does not parse; detection leaves the console empty and the log with its one \<open>info\<close>
  entry: the failure is logged nowhere. A record \<open>{oops\<close> is reported on the console, and the
  log still holds only the \<open>info\<close> entry.
\<close>

theorem unread_record_not_logged_counterexample:
  "localStorage (initial_state [''linear_config'' \<mapsto> ''''] Map.empty) ''linear_config'' = Some ''''
   \<and> JSON_parse sample_env '''' = None
   \<and> console (platformDetection sample_env None
         (initial_state [''linear_config'' \<mapsto> ''''] Map.empty)) = []
   \<and> map type (logs (platformDetection sample_env None
         (initial_state [''linear_config'' \<mapsto> ''''] Map.empty))) = [Info]
   \<and> map message (logs (platformDetection sample_env None
         (initial_state [''linear_config'' \<mapsto> ''''] Map.empty)))
       = [''Voice Manager initialized - Please configure your platform'']
   \<and> JSON_parse sample_env ''{oops'' = None
   \<and> console (platformDetection sample_env None
         (initial_state [''linear_config'' \<mapsto> ''{oops''] Map.empty))
       = [''Error parsing Linear config:'']
   \<and> map type (logs (platformDetection sample_env None
         (initial_state [''linear_config'' \<mapsto> ''{oops''] Map.empty))) = [Info]
   \<and> map message (logs (platformDetection sample_env None
         (initial_state [''linear_config'' \<mapsto> ''{oops''] Map.empty)))
       = [''Voice Manager initialized - Please configure your platform'']"
  by (simp add: detection_defs sample_env_def initial_state_def
      sample_linear_record_def quoted_def logs_addLog updateLogs_def)

section \<open>Recording: what a stop does\<close>

lemma nextIntervalId_addLog [simp]: "nextIntervalId (addLog env ty msg det s) = nextIntervalId s"
  by (simp add: addLog_def Let_def)

lemma clearRecordingInterval_fields [simp]:
  "recordingStatus (clearRecordingInterval s) = recordingStatus s"
  "recordingInterval (clearRecordingInterval s) = None"
  "liveIntervals (clearRecordingInterval s) =
     (case recordingInterval s of None \<Rightarrow> liveIntervals s
      | Some h \<Rightarrow> removeAll h (liveIntervals s))"
  "isConfigured (clearRecordingInterval s) = isConfigured s"
  "selectedTool (clearRecordingInterval s) = selectedTool s"
  "platformConfig (clearRecordingInterval s) = platformConfig s"
  by (simp_all add: clearRecordingInterval_def split: option.split)

lemma logResult_fields [simp]:
  "recordingStatus (logResult env r s) = recordingStatus s"
  "recordingInterval (logResult env r s) = recordingInterval s"
  "liveIntervals (logResult env r s) = liveIntervals s"
  "isConfigured (logResult env r s) = isConfigured s"
  "selectedTool (logResult env r s) = selectedTool s"
  "platformConfig (logResult env r s) = platformConfig s"
  by (simp_all add: logResult_def)

lemma forEachResult_fields:
  "recordingStatus (snd (forEachResult env rs s)) = recordingStatus s
   \<and> recordingInterval (snd (forEachResult env rs s)) = recordingInterval s
   \<and> liveIntervals (snd (forEachResult env rs s)) = liveIntervals s
   \<and> isConfigured (snd (forEachResult env rs s)) = isConfigured s
   \<and> selectedTool (snd (forEachResult env rs s)) = selectedTool s
   \<and> platformConfig (snd (forEachResult env rs s)) = platformConfig s"
  by (induction rs arbitrary: s) simp_all

lemma handleGateway_results:
  "recordingStatus (case forEachResult env rs s of
       (None, s2) \<Rightarrow> s2
     | (Some msg, s2) \<Rightarrow> addLog env Error (''Failed to send audio: '' @ msg) None s2)
     = recordingStatus s"
  "recordingInterval (case forEachResult env rs s of
       (None, s2) \<Rightarrow> s2
     | (Some msg, s2) \<Rightarrow> addLog env Error (''Failed to send audio: '' @ msg) None s2)
     = recordingInterval s"
  "liveIntervals (case forEachResult env rs s of
       (None, s2) \<Rightarrow> s2
     | (Some msg, s2) \<Rightarrow> addLog env Error (''Failed to send audio: '' @ msg) None s2)
     = liveIntervals s"
  "isConfigured (case forEachResult env rs s of
       (None, s2) \<Rightarrow> s2
     | (Some msg, s2) \<Rightarrow> addLog env Error (''Failed to send audio: '' @ msg) None s2)
     = isConfigured s"
  "selectedTool (case forEachResult env rs s of
       (None, s2) \<Rightarrow> s2
     | (Some msg, s2) \<Rightarrow> addLog env Error (''Failed to send audio: '' @ msg) None s2)
     = selectedTool s"
  "platformConfig (case forEachResult env rs s of
       (None, s2) \<Rightarrow> s2
     | (Some msg, s2) \<Rightarrow> addLog env Error (''Failed to send audio: '' @ msg) None s2)
     = platformConfig s"
  using forEachResult_fields [of env rs s]
  by (cases "forEachResult env rs s"; cases "fst (forEachResult env rs s)"; simp)+

lemma handleGateway_fields [simp]:
  "recordingStatus (handleGateway env g s) = recordingStatus s"
  "recordingInterval (handleGateway env g s) = recordingInterval s"
  "liveIntervals (handleGateway env g s) = liveIntervals s"
  "isConfigured (handleGateway env g s) = isConfigured s"
  "selectedTool (handleGateway env g s) = selectedTool s"
  "platformConfig (handleGateway env g s) = platformConfig s"
  by (simp_all add: handleGateway_def Let_def handleGateway_results
      split: gateway_result.split jsval.split)

lemma recorderStopped_fields [simp]:
  "recordingStatus (recorderStopped env s) = Idle"
  "recordingInterval (recorderStopped env s) = None"
  "liveIntervals (recorderStopped env s) =
     (case recordingInterval s of None \<Rightarrow> liveIntervals s
      | Some h \<Rightarrow> removeAll h (liveIntervals s))"
  "isConfigured (recorderStopped env s) = isConfigured s"
  "selectedTool (recorderStopped env s) = selectedTool s"
  "platformConfig (recorderStopped env s) = platformConfig s"
  by (simp_all add: recorderStopped_def split: option.split)

lemma recorderStopFailed_fields [simp]:
  "recordingStatus (recorderStopFailed env msg s) = Idle"
  "recordingInterval (recorderStopFailed env msg s) = recordingInterval s"
  "liveIntervals (recorderStopFailed env msg s) = liveIntervals s"
  "recordingTime (recorderStopFailed env msg s) = recordingTime s"
  "nextIntervalId (recorderStopFailed env msg s) = nextIntervalId s"
  "isConfigured (recorderStopFailed env msg s) = isConfigured s"
  "selectedTool (recorderStopFailed env msg s) = selectedTool s"
  "platformConfig (recorderStopFailed env msg s) = platformConfig s"
  by (simp_all add: recorderStopFailed_def)

lemma startRecording_started:
  assumes "recorderStart out = None"
  shows "recordingStatus (startRecording env out s) = Recording"
    "recordingInterval (startRecording env out s) = Some (nextIntervalId s)"
    "liveIntervals (startRecording env out s) = nextIntervalId s # liveIntervals s"
    "nextIntervalId (startRecording env out s) = nextIntervalId s + 1"
    "recordingTime (startRecording env out s) = 0"
    "isConfigured (startRecording env out s) = isConfigured s"
  using assms by (simp_all add: startRecording_def Let_def)

lemma stopRecording_success_clears_interval:
  assumes "recorderStop out = None"
  shows "recordingInterval (stopRecording env out s) = None"
    and "recordingInterval s = Some h \<Longrightarrow> h \<notin> set (liveIntervals (stopRecording env out s))"
  using assms by (simp_all add: stopRecording_def)

lemma stopRecording_failure_keeps_interval:
  assumes "recorderStop out = Some msg"
  shows "recordingInterval (stopRecording env out s) = recordingInterval s"
    and "liveIntervals (stopRecording env out s) = liveIntervals s"
    and "recordingStatus (stopRecording env out s) = Idle"
  using assms by (simp_all add: stopRecording_def)

lemma sample_configured_fields:
  "isConfigured sample_configured" "recordingStatus sample_configured = Idle"
  "liveIntervals sample_configured = []" "nextIntervalId sample_configured = 0"
  "recordingInterval sample_configured = None" "recordingTime sample_configured = 0"
  by (simp_all add: sample_configured_def detection_defs sample_cookies_def initial_state_def)

lemma sample_recording_fields:
  "isConfigured sample_recording" "recordingStatus sample_recording = Recording"
  "liveIntervals sample_recording = [0]" "nextIntervalId sample_recording = 1"
  "recordingInterval sample_recording = Some 0" "recordingTime sample_recording = 0"
  by (simp_all add: sample_recording_def clickRecordButton_def sample_configured_fields
      startRecording_started sample_ok_def)

lemma stopRecording_status [simp]: "recordingStatus (stopRecording env out s) = Idle"
  by (simp add: stopRecording_def split: option.split)

lemma stopRecording_resumed_status [simp]:
  "recordingStatus (stopRecording_resumed env out s) = recordingStatus s"
  by (simp add: stopRecording_resumed_def)

lemma startRecording_status:
  "recordingStatus (startRecording env out s) = Recording
   \<or> recordingStatus (startRecording env out s) = recordingStatus s"
  by (simp add: startRecording_def Let_def split: option.split)

lemma step_not_processing:
  assumes "recordingStatus s \<noteq> Processing"
  shows "recordingStatus (step env ev s) \<noteq> Processing"
proof (cases ev)
  case (ClickRecord out)
  show ?thesis
    using assms startRecording_status [of env out s]
    by (auto simp: ClickRecord clickRecordButton_def)
next
  case (GatewayAnswers out)
  with assms show ?thesis by simp
next
  case SecondPasses
  with assms show ?thesis by (simp add: oneSecond_def)
qed

lemma run_not_processing:
  "recordingStatus s \<noteq> Processing \<Longrightarrow> recordingStatus (run env evs s) \<noteq> Processing"
  by (induction evs arbitrary: s) (simp_all add: step_not_processing)

text \<open>
  Claim C3, as the code has it. A stop puts the status to \<open>idle\<close> as soon as the recorder has
  answered, before the audio is sent: a click on the record button of a configured, recording
  component leaves it idle. No handler assigns \<open>processing\<close>: whatever clicks, gateway answers
  and seconds follow one another, a component that is not in \<open>processing\<close> never gets there.
  Handling the gateway's answer, or its failure, leaves the status as it finds it.
\<close>

theorem stop_goes_straight_to_idle:
  "recordingStatus (stopRecording env out s) = Idle
   \<and> (isConfigured s \<and> recordingStatus s = Recording \<longrightarrow>
        recordingStatus (clickRecordButton env out s) = Idle)
   \<and> recordingStatus (stopRecording_resumed env out' s) = recordingStatus s
   \<and> (recordingStatus s \<noteq> Processing \<longrightarrow> recordingStatus (run env evs s) \<noteq> Processing)"
  by (simp add: clickRecordButton_def run_not_processing)

lemma sample_stopped_fields:
  "isConfigured (clickRecordButton sample_env sample_ok sample_recording)"
  "recordingStatus (clickRecordButton sample_env sample_ok sample_recording) = Idle"
  by (simp_all add: clickRecordButton_def sample_recording_fields stopRecording_def
      sample_ok_def)

lemma sample_restarted_fields:
  "recordingStatus
     (clickRecordButton sample_env sample_ok
        (clickRecordButton sample_env sample_ok sample_recording)) = Recording"
proof -
  have o: "recorderStart sample_ok = None"
    by (simp add: sample_ok_def)
  have "clickRecordButton sample_env sample_ok
          (clickRecordButton sample_env sample_ok sample_recording)
        = startRecording sample_env sample_ok
            (clickRecordButton sample_env sample_ok sample_recording)"
    using sample_stopped_fields
    by (simp add: clickRecordButton_def
        [of _ _ "clickRecordButton sample_env sample_ok sample_recording"])
  then show ?thesis
    by (simp add: startRecording_started [OF o])
qed

theorem stop_goes_straight_to_idle_witness:
  "isConfigured sample_recording
   \<and> recordingStatus sample_recording = Recording
   \<and> recordingStatus (clickRecordButton sample_env sample_ok sample_recording) = Idle
   \<and> recordingStatus
        (stopRecording_resumed sample_env sample_ok
           (clickRecordButton sample_env sample_ok sample_recording)) = Idle
   \<and> recordingStatus
        (run sample_env [ClickRecord sample_ok, GatewayAnswers sample_ok, SecondPasses]
           sample_recording) = Idle"
proof -
  note t = stop_goes_straight_to_idle
    [of sample_env sample_ok sample_recording sample_ok
        "[ClickRecord sample_ok, GatewayAnswers sample_ok, SecondPasses]"]
  from t sample_recording_fields(1,2)
  have 1: "recordingStatus (clickRecordButton sample_env sample_ok sample_recording) = Idle"
    by blast
  have 2: "recordingStatus
        (stopRecording_resumed sample_env sample_ok
           (clickRecordButton sample_env sample_ok sample_recording)) = Idle"
    using stop_goes_straight_to_idle
      [of sample_env sample_ok "clickRecordButton sample_env sample_ok sample_recording" sample_ok "[]"]
      1 by simp
  have 3: "recordingStatus
        (run sample_env [ClickRecord sample_ok, GatewayAnswers sample_ok, SecondPasses]
           sample_recording) = Idle"
    using 2 by (simp add: oneSecond_def)
  from sample_recording_fields(1,2) 1 2 3 show ?thesis by blast
qed

text \<open>
  Claim C3 as the spec words it fails, twice. The stop click takes a recording component
  straight to \<open>idle\<close>, not through \<open>processing\<close>. And with the request in flight the button
  is live: a second click starts a new recording, and when the gateway's answer has then been
  handled the status is \<open>recording\<close>, not \<open>idle\<close>.
\<close>

theorem stop_skips_processing_counterexample:
  "recordingStatus sample_recording = Recording
   \<and> recordingStatus (step sample_env (ClickRecord sample_ok) sample_recording) = Idle
   \<and> recordingStatus
        (run sample_env [ClickRecord sample_ok, ClickRecord sample_ok, GatewayAnswers sample_ok]
           sample_recording) = Recording"
  by (simp add: sample_recording_fields sample_stopped_fields sample_restarted_fields)

text \<open>
  Claim C4, at the input where the code departs from it. A recording is started and the
  recorder then rejects the stop: the status goes to \<open>idle\<close>, but the interval is still alive
  and its handle still set, so the next second increments the elapsed time while idle. The
  next start adds a second interval, and the elapsed time of that recording advances by two
  per second.
\<close>

theorem failed_stop_leaves_interval_running:
  "recordingStatus sample_recording = Recording
   \<and> recordingStatus (stopRecording sample_env sample_stop_fails sample_recording) = Idle
   \<and> recordingInterval (stopRecording sample_env sample_stop_fails sample_recording) = Some 0
   \<and> liveIntervals (stopRecording sample_env sample_stop_fails sample_recording) = [0]
   \<and> recordingTime (oneSecond (stopRecording sample_env sample_stop_fails sample_recording)) = 1
   \<and> recordingStatus (oneSecond (stopRecording sample_env sample_stop_fails sample_recording)) = Idle
   \<and> liveIntervals
        (clickRecordButton sample_env sample_ok
           (stopRecording sample_env sample_stop_fails sample_recording)) = [1, 0]
   \<and> recordingTime
        (oneSecond (clickRecordButton sample_env sample_ok
           (stopRecording sample_env sample_stop_fails sample_recording))) = 2"
proof -
  let ?s = "stopRecording sample_env sample_stop_fails sample_recording"
  have f: "recorderStop sample_stop_fails = Some ''no recorder''"
    by (simp add: sample_stop_fails_def)
  have s: "recordingStatus ?s = Idle" "recordingInterval ?s = Some 0" "liveIntervals ?s = [0]"
    "recordingTime ?s = 0" "nextIntervalId ?s = 1" "isConfigured ?s"
    by (simp_all add: stopRecording_def f sample_recording_fields)
  have o: "recorderStart sample_ok = None"
    by (simp add: sample_ok_def)
  have c: "clickRecordButton sample_env sample_ok ?s = startRecording sample_env sample_ok ?s"
    by (simp add: clickRecordButton_def s)
  have r: "liveIntervals (startRecording sample_env sample_ok ?s) = [1, 0]"
    "recordingTime (startRecording sample_env sample_ok ?s) = 0"
    by (simp_all add: startRecording_started [OF o] s)
  show ?thesis
    unfolding c by (simp add: oneSecond_def s r sample_recording_fields)
qed

section \<open>When the component counts as configured\<close>

lemma complete_JNull [simp]: "\<not> complete t JNull"
  by (simp add: complete_def nonEmptyString_def)


lemma session_ok_addLog [simp]: "session_ok (addLog env ty msg det s) = session_ok s"
  by (simp add: session_ok_def)

lemma session_ok_console [simp]: "session_ok (s\<lparr> console := c \<rparr>) = session_ok s"
  by (simp add: session_ok_def)










lemma handleConfigSave_fields [simp]:
  "isConfigured (handleConfigSave env cfg s) = True"
  "platformConfig (handleConfigSave env cfg s) = cfg"
  "selectedTool (handleConfigSave env cfg s) = selectedTool s"
  by (simp_all add: handleConfigSave_def)









lemma startRecording_session [simp]:
  "isConfigured (startRecording env out s) = isConfigured s"
  "selectedTool (startRecording env out s) = selectedTool s"
  "platformConfig (startRecording env out s) = platformConfig s"
  by (simp_all add: startRecording_def Let_def split: option.split)

lemma stopRecording_session [simp]:
  "isConfigured (stopRecording env out s) = isConfigured s"
  "selectedTool (stopRecording env out s) = selectedTool s"
  "platformConfig (stopRecording env out s) = platformConfig s"
  by (simp_all add: stopRecording_def split: option.split)

lemma stopRecording_resumed_session [simp]:
  "isConfigured (stopRecording_resumed env out s) = isConfigured s"
  "selectedTool (stopRecording_resumed env out s) = selectedTool s"
  "platformConfig (stopRecording_resumed env out s) = platformConfig s"
  by (simp_all add: stopRecording_resumed_def)













end
